theory Spec2Isabelle
  imports Complex_Main "HOL-Library.Log_Nat"
begin

section \<open>Meal planner: data model\<close>

text \<open>
  The program (\<^verbatim>\<open>app.py\<close>) allocates servings of food from two item lists, the senior
  box and the main inventory, against fixed requirements per meal.
\<close>

section \<open>Floating point\<close>

text \<open>
  Quantities are Python floats in the source: IEEE 754 double precision. A finite double
  is a rational number, so a quantity is a \<^typ>\<open>rat\<close>, and an arithmetic operation of
  the source is the exact operation followed by rounding to the nearest double, ties to
  the even mantissa. Comparisons of floats, and of a float with an integer, are exact.
  Infinities and NaN are not modelled: the cells hold finite numbers, the subtractions of
  the allocator take a smaller non-negative number from a larger one and cannot overflow,
  and a product or a sum beyond the largest double is outside the model.

  \<open>ilog2 q\<close> is the exponent of the leading bit of a positive \<open>q\<close>: the integer
  \<open>e\<close> with \<open>2 powi e \<le> q < 2 powi (e + 1)\<close>.
\<close>

definition ilog2 :: "rat \<Rightarrow> int" where
  "ilog2 q = (if 1 \<le> q then bitlen \<lfloor>q\<rfloor> - 1 else - bitlen (\<lceil>1 / q\<rceil> - 1))"

text \<open>Rounding to the nearest integer, a tie going to the even one.\<close>

definition round_half_even :: "rat \<Rightarrow> int" where
  "round_half_even x =
     (let f = \<lfloor>x\<rfloor>; r = x - of_int f in
      if r < 1 / 2 then f
      else if 1 / 2 < r then f + 1
      else if even f then f else f + 1)"

text \<open>
  Rounding to a double: 53 bits of mantissa, so the last bit of a number with leading
  exponent \<open>E\<close> has weight \<open>2 powi (E - 52)\<close>, and not less than \<open>2 powi (- 1074)\<close>, the
  weight of the last bit of the subnormal numbers.
\<close>

definition round_double :: "rat \<Rightarrow> rat" where
  "round_double q =
     (if q = 0 then 0
      else (let e = max (- 1074) (ilog2 \<bar>q\<bar> - 52)
            in of_int (round_half_even (q / 2 powi e)) * 2 powi e))"

text \<open>The operations \<^verbatim>\<open>x - y\<close>, \<^verbatim>\<open>x + y\<close> and \<^verbatim>\<open>x * y\<close> on floats.\<close>

definition double_sub :: "rat \<Rightarrow> rat \<Rightarrow> rat" where
  "double_sub x y = round_double (x - y)"

definition double_add :: "rat \<Rightarrow> rat \<Rightarrow> rat" where
  "double_add x y = round_double (x + y)"

definition double_mul :: "rat \<Rightarrow> rat \<Rightarrow> rat" where
  "double_mul x y = round_double (x * y)"

section \<open>Items and usage records\<close>

text \<open>
  An item of an inventory list is the dict
  \<^verbatim>\<open>{"item_name": ..., "category": ..., "servings_available": ...}\<close>.
\<close>

record inventory_item =
  item_name :: string
  category :: string
  servings_available :: rat

text \<open>The value of the key \<^verbatim>\<open>"from"\<close> of a usage record: \<^verbatim>\<open>"box"\<close> or \<^verbatim>\<open>"main"\<close>.\<close>

datatype source = FromBox | FromMain

text \<open>
  A usage record is the dict
  \<^verbatim>\<open>{"item_name": ..., "category": ..., "servings_used": ..., "from": ...}\<close>.
\<close>

record usage_record =
  used_item_name :: string
  used_category :: string
  servings_used :: rat
  used_from :: source

section \<open>Cycle month\<close>

text \<open>
  \<^verbatim>\<open>def get_cycle_month(month): return ((month - 1) % 3) + 1\<close>.
  Python's \<^verbatim>\<open>%\<close> with a positive divisor is the floor modulus, as \<open>mod\<close> on \<^typ>\<open>int\<close>.
\<close>

definition get_cycle_month :: "int \<Rightarrow> int" where
  "get_cycle_month month = ((month - 1) mod 3) + 1"

text \<open>The sheet chosen by \<^verbatim>\<open>load_senior_box_data_and_list\<close> (if / elif / else).\<close>

definition box_sheet_name :: "int \<Rightarrow> string" where
  "box_sheet_name cycle_month =
     (if cycle_month = 1 then ''Senior Box First Month''
      else if cycle_month = 2 then ''Senior Box Second Month''
      else ''Senior Box Third Month'')"

section \<open>Allocation\<close>

text \<open>
  One \<^verbatim>\<open>for item in ...\<close> loop of \<^verbatim>\<open>allocate_category\<close>. The source writes the loop
  twice, once over \<^verbatim>\<open>box_list\<close> with \<^verbatim>\<open>"from": "box"\<close> and once over \<^verbatim>\<open>main_list\<close>
  with \<^verbatim>\<open>"from": "main"\<close>; the two bodies are the same text otherwise. The loop mutates
  the items in place and appends to \<^verbatim>\<open>used_details\<close>: the model returns the list of
  items after the loop, the records appended by the loop, and \<^verbatim>\<open>needed_left\<close>.
  The first branch ends with \<^verbatim>\<open>break\<close>: the rest of the list is returned untouched.
  The two \<^verbatim>\<open>-=\<close> are subtractions of floats; where \<^verbatim>\<open>needed_left\<close> is still the integer
  that was passed, Python converts it to a float first, which changes no integer below
  \<open>2 ^ 53\<close>.
\<close>

fun scan_items ::
  "source \<Rightarrow> string \<Rightarrow> inventory_item list \<Rightarrow> rat
     \<Rightarrow> inventory_item list \<times> usage_record list \<times> rat" where
  "scan_items src cat [] needed_left = ([], [], needed_left)"
| "scan_items src cat (item # rest) needed_left =
     (if category item = cat \<and> needed_left > 0 then
        (if servings_available item \<ge> needed_left then
           (item\<lparr>servings_available := double_sub (servings_available item) needed_left\<rparr>
              # rest,
            [\<lparr>used_item_name = item_name item, used_category = cat,
              servings_used = needed_left, used_from = src\<rparr>],
            0)
         else if servings_available item > 0 then
           (case scan_items src cat rest (double_sub needed_left (servings_available item)) of
              (rest', used, left') \<Rightarrow>
                (item\<lparr>servings_available := 0\<rparr> # rest',
                 \<lparr>used_item_name = item_name item, used_category = cat,
                  servings_used = servings_available item, used_from = src\<rparr> # used,
                 left'))
         else
           (case scan_items src cat rest needed_left of
              (rest', used, left') \<Rightarrow> (item # rest', used, left')))
      else
        (case scan_items src cat rest needed_left of
           (rest', used, left') \<Rightarrow> (item # rest', used, left')))"

text \<open>
  \<^verbatim>\<open>allocate_category(box_list, main_list, category, needed)\<close>. The source returns
  \<^verbatim>\<open>(used_details, needed_left, shortage_flag)\<close> and leaves its effect in the two lists;
  the model returns the two lists after the call in front of the three results.
  The two lists are taken to share no item object, as the lists built by
  \<^verbatim>\<open>generate_monthly_plan\<close> do.
\<close>

definition allocate_category ::
  "inventory_item list \<Rightarrow> inventory_item list \<Rightarrow> string \<Rightarrow> rat
     \<Rightarrow> inventory_item list \<times> inventory_item list \<times> usage_record list \<times> rat \<times> bool" where
  "allocate_category box_list main_list cat needed =
     (case scan_items FromBox cat box_list needed of
        (box_list', box_used, left1) \<Rightarrow>
          (case (if left1 > 0 then scan_items FromMain cat main_list left1
                 else (main_list, [], left1)) of
             (main_list', main_used, needed_left) \<Rightarrow>
               (box_list', main_list', box_used @ main_used, needed_left, needed_left > 0)))"

subsection \<open>Quantities the properties speak about\<close>





text \<open>An item of the category with positive servings, emptied; any other item as it is.\<close>

definition exhaust :: "string \<Rightarrow> inventory_item \<Rightarrow> inventory_item" where
  "exhaust cat item =
     (if category item = cat \<and> servings_available item > 0
      then item\<lparr>servings_available := 0\<rparr> else item)"

text \<open>
  A number is on the grid of step \<open>2 powi k\<close> when it is a whole multiple of the step with
  fewer than \<open>2 ^ 53\<close> steps: a double with its last bit at weight \<open>2 powi k\<close> or above.
  With \<open>k = 0\<close> these are the whole numbers below \<open>2 ^ 53\<close>.
\<close>

definition on_grid :: "int \<Rightarrow> rat \<Rightarrow> bool" where
  "on_grid k x = (of_int \<lfloor>x / 2 powi k\<rfloor> = x / 2 powi k \<and> \<bar>x / 2 powi k\<bar> < 2 ^ 53)"

section \<open>Meals\<close>

text \<open>
  \<^verbatim>\<open>allocate_meal(box_list, main_list, meal_plan)\<close>: the loop
  \<^verbatim>\<open>for cat, needed in meal_plan.items()\<close> over a dict in insertion order, an association
  list here. The loop variables \<^verbatim>\<open>used_items\<close> and \<^verbatim>\<open>shortage_any\<close> are the last two
  arguments; the two item lists are threaded through, since \<^verbatim>\<open>allocate_category\<close>
  mutates them.
\<close>

fun allocate_meal_loop ::
  "inventory_item list \<Rightarrow> inventory_item list \<Rightarrow> (string \<times> rat) list
     \<Rightarrow> usage_record list \<Rightarrow> bool
     \<Rightarrow> inventory_item list \<times> inventory_item list \<times> usage_record list \<times> bool" where
  "allocate_meal_loop box_list main_list [] used_items shortage_any =
     (box_list, main_list, used_items, shortage_any)"
| "allocate_meal_loop box_list main_list ((cat, needed) # rest) used_items shortage_any =
     (if needed \<le> 0 then allocate_meal_loop box_list main_list rest used_items shortage_any
      else
        (case allocate_category box_list main_list cat needed of
           (box_list', main_list', cat_used, leftover, short) \<Rightarrow>
             allocate_meal_loop box_list' main_list' rest (used_items @ cat_used)
               (if short then True else shortage_any)))"

definition allocate_meal ::
  "inventory_item list \<Rightarrow> inventory_item list \<Rightarrow> (string \<times> rat) list
     \<Rightarrow> inventory_item list \<times> inventory_item list \<times> usage_record list \<times> bool" where
  "allocate_meal box_list main_list meal_plan =
     allocate_meal_loop box_list main_list meal_plan [] False"

text \<open>
  The keys of the dict \<^verbatim>\<open>MEALS\<close>, its values, and \<^verbatim>\<open>MEAL_ORDER\<close>. The required
  servings are Python integers; they are compared with and subtracted from servings, so
  they are rationals here.
\<close>

datatype meal_key = BreakfastPlan | LunchPlan | DinnerPlan

fun meal_key_name :: "meal_key \<Rightarrow> string" where
  "meal_key_name BreakfastPlan = ''BreakfastPlan''"
| "meal_key_name LunchPlan = ''LunchPlan''"
| "meal_key_name DinnerPlan = ''DinnerPlan''"

fun MEALS :: "meal_key \<Rightarrow> (string \<times> rat) list" where
  "MEALS BreakfastPlan =
     [(''fruit_veg'', 1), (''cereal'', 1), (''dairy'', 1), (''protein'', 0), (''oil'', 0)]"
| "MEALS LunchPlan =
     [(''fruit_veg'', 2), (''cereal'', 1), (''dairy'', 0), (''protein'', 1), (''oil'', 1)]"
| "MEALS DinnerPlan =
     [(''fruit_veg'', 2), (''cereal'', 2), (''dairy'', 1), (''protein'', 0), (''oil'', 2)]"

definition MEAL_ORDER :: "meal_key list" where
  "MEAL_ORDER = [BreakfastPlan, LunchPlan, DinnerPlan]"

text \<open>
  Python's \<^verbatim>\<open>s.replace(old, new)\<close> for a non-empty \<^verbatim>\<open>old\<close> (the source calls it with
  \<^verbatim>\<open>"Plan"\<close>): every occurrence, left to right, without overlap.
\<close>

function str_replace :: "string \<Rightarrow> string \<Rightarrow> string \<Rightarrow> string" where
  "str_replace old new [] = []"
| "str_replace old new (c # cs) =
     (if old \<noteq> [] \<and> take (length old) (c # cs) = old
      then new @ str_replace old new (drop (length old) (c # cs))
      else c # str_replace old new cs)"
  by pat_completeness auto
termination
  by (relation "measure (\<lambda>(old, new, s). length s)") auto

text \<open>One entry of \<^verbatim>\<open>day_meals\<close>.\<close>

record meal_result =
  meal_time :: string
  meal_plan_requirements :: "(string \<times> rat) list"
  used_items :: "usage_record list"

section \<open>Summaries\<close>

text \<open>
  \<^verbatim>\<open>summarize_day_usage\<close> keeps two \<^verbatim>\<open>defaultdict(float)\<close> keyed by
  \<^verbatim>\<open>(item_name, category)\<close>; a dict keeps its keys in the order of first insertion, so
  each is an association list here, and \<^verbatim>\<open>m[key] += v\<close> is \<open>usage_add\<close>.
\<close>

type_synonym usage_map = "((string \<times> string) \<times> rat) list"

fun usage_add :: "usage_map \<Rightarrow> string \<times> string \<Rightarrow> rat \<Rightarrow> usage_map" where
  "usage_add [] key v = [(key, double_add 0 v)]"
| "usage_add ((k, v0) # m) key v =
     (if k = key then (k, double_add v0 v) # m else (k, v0) # usage_add m key v)"

text \<open>The inner loop \<^verbatim>\<open>for used in meal["used_items"]\<close>.\<close>

fun summarize_used :: "usage_record list \<Rightarrow> usage_map \<Rightarrow> usage_map \<Rightarrow> usage_map \<times> usage_map" where
  "summarize_used [] box_usage_map main_usage_map = (box_usage_map, main_usage_map)"
| "summarize_used (used # rest) box_usage_map main_usage_map =
     (let key = (used_item_name used, used_category used) in
      if used_from used = FromBox
      then summarize_used rest (usage_add box_usage_map key (servings_used used)) main_usage_map
      else summarize_used rest box_usage_map (usage_add main_usage_map key (servings_used used)))"

text \<open>The outer loop \<^verbatim>\<open>for meal in day_meals\<close>.\<close>

fun summarize_meals :: "meal_result list \<Rightarrow> usage_map \<Rightarrow> usage_map \<Rightarrow> usage_map \<times> usage_map" where
  "summarize_meals [] box_usage_map main_usage_map = (box_usage_map, main_usage_map)"
| "summarize_meals (meal # rest) box_usage_map main_usage_map =
     (case summarize_used (used_items meal) box_usage_map main_usage_map of
        (box_usage_map', main_usage_map') \<Rightarrow> summarize_meals rest box_usage_map' main_usage_map')"

record usage_summary =
  summary_item_name :: string
  summary_category :: string
  summary_servings_used :: rat

definition map_to_list :: "usage_map \<Rightarrow> usage_summary list" where
  "map_to_list usage_map =
     map (\<lambda>((item_n, cat), total_used').
            \<lparr>summary_item_name = item_n, summary_category = cat,
             summary_servings_used = total_used'\<rparr>) usage_map"

definition summarize_day_usage :: "meal_result list \<Rightarrow> usage_summary list \<times> usage_summary list" where
  "summarize_day_usage day_meals =
     (case summarize_meals day_meals [] [] of
        (box_usage_map, main_usage_map) \<Rightarrow> (map_to_list box_usage_map, map_to_list main_usage_map))"

section \<open>Days\<close>

text \<open>
  The loop \<^verbatim>\<open>for meal_key in MEAL_ORDER\<close> of \<^verbatim>\<open>generate_monthly_plan\<close>, which ends with
  \<^verbatim>\<open>break\<close> at the first meal that reports a shortage. The last component of the result
  is \<^verbatim>\<open>shortage_for_day\<close>.
\<close>

fun run_meals ::
  "inventory_item list \<Rightarrow> inventory_item list \<Rightarrow> meal_key list \<Rightarrow> meal_result list
     \<Rightarrow> inventory_item list \<times> inventory_item list \<times> meal_result list \<times> bool" where
  "run_meals box_list main_list [] day_meals = (box_list, main_list, day_meals, False)"
| "run_meals box_list main_list (meal_key # rest) day_meals =
     (case allocate_meal box_list main_list (MEALS meal_key) of
        (box_list', main_list', used, shortage_any) \<Rightarrow>
          (let day_meals' = day_meals @
                 [\<lparr>meal_time = str_replace ''Plan'' [] (meal_key_name meal_key),
                   meal_plan_requirements = MEALS meal_key,
                   used_items = used\<rparr>]
           in if shortage_any then (box_list', main_list', day_meals', True)
              else run_meals box_list' main_list' rest day_meals'))"

text \<open>
  An entry of \<^verbatim>\<open>day_plans\<close>. The keys \<^verbatim>\<open>day_box_usage\<close> and \<^verbatim>\<open>day_main_usage\<close> are set only
  on a day without shortage: \<open>None\<close> is the absent key.
\<close>

record day_info =
  day_number :: int
  meals :: "meal_result list"
  day_box_usage :: "usage_summary list option"
  day_main_usage :: "usage_summary list option"

text \<open>An entry of \<^verbatim>\<open>day_shortages\<close>.\<close>

record day_shortage =
  shortage_day_number :: int
  shortages :: "string list"

text \<open>
  The body of the loop \<^verbatim>\<open>for day_num in range(1, 31)\<close>. \<^verbatim>\<open>copy.deepcopy\<close> of a list of
  dicts of strings and numbers gives an equal list that shares no object with the
  original, so the later mutation of the items leaves the backup as it was: in a model that
  passes lists by value, the backup is the list itself. The result is the two lists the
  next day starts from, the entry for \<^verbatim>\<open>day_plans\<close>, and the entry for \<^verbatim>\<open>day_shortages\<close>
  when there is one.
\<close>

definition plan_day ::
  "inventory_item list \<Rightarrow> inventory_item list \<Rightarrow> int
     \<Rightarrow> inventory_item list \<times> inventory_item list \<times> day_info \<times> day_shortage option" where
  "plan_day box_list main_list day_num =
     (let backup_box = box_list; backup_main = main_list in
      case run_meals box_list main_list MEAL_ORDER [] of
        (box_list', main_list', day_meals, shortage_for_day) \<Rightarrow>
          if shortage_for_day then
            (backup_box, backup_main,
             \<lparr>day_number = day_num, meals = [], day_box_usage = None, day_main_usage = None\<rparr>,
             Some \<lparr>shortage_day_number = day_num,
                   shortages = [''Not enough box+main inventory to fulfill 5-4-3-2-1 plan'']\<rparr>)
          else
            (case summarize_day_usage day_meals of
               (box_usage, main_usage) \<Rightarrow>
                 (box_list', main_list',
                  \<lparr>day_number = day_num, meals = day_meals,
                   day_box_usage = Some box_usage, day_main_usage = Some main_usage\<rparr>,
                  None)))"

text \<open>The loop over the days, with \<^verbatim>\<open>day_plans\<close> and \<^verbatim>\<open>day_shortages\<close> as accumulators.\<close>

fun plan_days ::
  "inventory_item list \<Rightarrow> inventory_item list \<Rightarrow> int list \<Rightarrow> day_info list \<Rightarrow> day_shortage list
     \<Rightarrow> inventory_item list \<times> inventory_item list \<times> day_info list \<times> day_shortage list" where
  "plan_days box_list main_list [] day_plans day_shortages =
     (box_list, main_list, day_plans, day_shortages)"
| "plan_days box_list main_list (day_num # rest) day_plans day_shortages =
     (case plan_day box_list main_list day_num of
        (box_list', main_list', info, shortage) \<Rightarrow>
          plan_days box_list' main_list' rest (day_plans @ [info])
            (case shortage of None \<Rightarrow> day_shortages | Some s \<Rightarrow> day_shortages @ [s]))"

section \<open>Reference and inventory tables\<close>

text \<open>
  The spreadsheets are read by \<^verbatim>\<open>pandas.read_excel\<close>, outside the program. A call either
  raises \<^verbatim>\<open>FileNotFoundError\<close> or \<^verbatim>\<open>ValueError\<close>, the two exceptions the source
  catches, or gives a data frame: its column names and its rows. A row carries the cells
  the loaders read; they are read only after the check that the columns exist. The cells
  of the columns \<^verbatim>\<open>item_name\<close> and \<^verbatim>\<open>item_category\<close> are text: the string is what
  \<^verbatim>\<open>str(...)\<close> of the cell gives.
\<close>

record 'row frame =
  columns :: "string list"
  rows :: "'row list"

datatype 'row read_excel = FileNotFoundError | ValueError | DataFrame "'row frame"

text \<open>
  A cell of a numeric column, as \<^verbatim>\<open>pd.to_numeric(..., errors="coerce")\<close> sees it: a cell
  it reads as a number, a cell it cannot read as a number, or an empty cell.
\<close>

datatype cell = Numeric rat | NonNumeric | Missing

text \<open>\<^verbatim>\<open>pd.to_numeric(column, errors="coerce")\<close> on one cell; \<open>None\<close> is NaN.\<close>

fun to_numeric :: "cell \<Rightarrow> rat option" where
  "to_numeric (Numeric v) = Some v"
| "to_numeric NonNumeric = None"
| "to_numeric Missing = None"

text \<open>\<^verbatim>\<open>.fillna(d)\<close> on one cell.\<close>

fun fillna :: "rat \<Rightarrow> rat option \<Rightarrow> rat" where
  "fillna d None = d"
| "fillna d (Some v) = v"

text \<open>
  \<^verbatim>\<open>str.strip()\<close> and \<^verbatim>\<open>str.lower()\<close> on strings of ASCII characters: the white space of
  \<^verbatim>\<open>str.isspace\<close> below 128 is 9 to 13 and 28 to 32; the letters A to Z (65 to 90) are
  moved to a to z by adding 32, which sets the bit of weight 32, clear in 65 to 90.
\<close>

definition is_space :: "char \<Rightarrow> bool" where
  "is_space c = ((9 \<le> (of_char c :: nat) \<and> (of_char c :: nat) \<le> 13)
                 \<or> (28 \<le> (of_char c :: nat) \<and> (of_char c :: nat) \<le> 32))"

definition strip :: "string \<Rightarrow> string" where
  "strip s = rev (dropWhile is_space (rev (dropWhile is_space s)))"

definition lower_char :: "char \<Rightarrow> char" where
  "lower_char c =
     (if 65 \<le> (of_char c :: nat) \<and> (of_char c :: nat) \<le> 90
      then (case c of Char b0 b1 b2 b3 b4 b5 b6 b7 \<Rightarrow> Char b0 b1 b2 b3 b4 True b6 b7)
      else c)"

definition lower :: "string \<Rightarrow> string" where
  "lower s = map lower_char s"

text \<open>The exceptions the loaders raise, one constructor for each message.\<close>

datatype error =
    CannotFind string
    \<comment> \<open>\<^verbatim>\<open>Cannot find '{path}'.\<close>\<close>
  | ErrorReading string
    \<comment> \<open>\<^verbatim>\<open>Error reading '{path}'\<close>, check sheet name, columns, etc.\<close>
  | ColumnMissing string string
    \<comment> \<open>\<^verbatim>\<open>Column '{c}' missing in '{path}'.\<close>\<close>
  | WorksheetNotFound string string
    \<comment> \<open>\<^verbatim>\<open>Worksheet '{sheet_name}' not found in '{path}'.\<close>\<close>
  | ColumnMissingInSheet string string string
    \<comment> \<open>\<^verbatim>\<open>Column '{c}' missing in '{sheet_name}' of '{path}'.\<close>\<close>
  | BoxColumnsMissing string string
    \<comment> \<open>\<^verbatim>\<open>'item_name' or 'quantity' missing in sheet '{sheet_name}' of '{path}'.\<close>\<close>

text \<open>\<^verbatim>\<open>CATEGORY_MAP\<close>; \<^verbatim>\<open>CATEGORY_MAP.get(raw_cat, None)\<close> is the application of the map.\<close>

definition CATEGORY_MAP :: "string \<rightharpoonup> string" where
  "CATEGORY_MAP = map_of
     [(''seasonal & local fruits/vegetables'', ''fruit_veg''),
      (''milk & dairy'', ''dairy''),
      (''meat/fish/eggs/pulses'', ''protein''),
      (''grains'', ''cereal''),
      (''oil'', ''oil'')]"

subsection \<open>The food reference\<close>

text \<open>A row of \<^verbatim>\<open>DATA SET FOOD CATEGORY.xlsx\<close> and an entry of \<^verbatim>\<open>ref_map\<close>.\<close>

record ref_row =
  ref_item_name :: string
  ref_item_category :: string
  ref_servings_per_unit :: cell

record ref_entry =
  raw_category :: string
  servings_per_unit :: rat

text \<open>
  The loop \<^verbatim>\<open>for _, row in df.iterrows()\<close> of \<^verbatim>\<open>load_food_reference\<close>, with
  \<^verbatim>\<open>ref_map\<close> as accumulator. The column \<^verbatim>\<open>servings_per_unit\<close> has been through
  \<^verbatim>\<open>pd.to_numeric(..., errors="coerce").fillna(1)\<close>.
\<close>

fun build_ref_map :: "ref_row list \<Rightarrow> (string \<rightharpoonup> ref_entry) \<Rightarrow> (string \<rightharpoonup> ref_entry)" where
  "build_ref_map [] ref_map = ref_map"
| "build_ref_map (row # rest) ref_map =
     (let name = lower (strip (ref_item_name row));
          raw_cat = lower (strip (ref_item_category row));
          su = fillna 1 (to_numeric (ref_servings_per_unit row))
      in build_ref_map rest
           (ref_map(name \<mapsto> \<lparr>raw_category = raw_cat, servings_per_unit = su\<rparr>)))"

text \<open>The first of the needed columns that the frame does not have, if any.\<close>

definition missing_column :: "string list \<Rightarrow> string list \<Rightarrow> string option" where
  "missing_column needed_cols cols = find (\<lambda>c. c \<notin> set cols) needed_cols"

definition load_food_reference :: "ref_row read_excel \<Rightarrow> error + (string \<rightharpoonup> ref_entry)" where
  "load_food_reference file =
     (let path = ''data/DATA SET FOOD CATEGORY.xlsx'' in
      case file of
        FileNotFoundError \<Rightarrow> Inl (CannotFind path)
      | ValueError \<Rightarrow> Inl (ErrorReading path)
      | DataFrame df \<Rightarrow>
          (case missing_column [''item_name'', ''item_category'', ''servings_per_unit''] (columns df) of
             Some c \<Rightarrow> Inl (ColumnMissing c path)
           | None \<Rightarrow> Inr (build_ref_map (rows df) Map.empty)))"

subsection \<open>The two inventories\<close>

text \<open>
  A row of a senior box sheet (\<^verbatim>\<open>item_name\<close>, \<^verbatim>\<open>quantity\<close>) or of the sheet
  \<^verbatim>\<open>Inventory\<close> (\<^verbatim>\<open>item_name\<close>, \<^verbatim>\<open>quantity_in_stock\<close>).
\<close>

record inventory_row =
  row_item_name :: string
  row_quantity :: cell

text \<open>
  The loop \<^verbatim>\<open>for _, row in df.iterrows()\<close> that \<^verbatim>\<open>load_senior_box_data_and_list\<close> and
  \<^verbatim>\<open>load_main_inventory_items\<close> both have, the same but for the names of the variables and
  the text they print. The quantity column has been through
  \<^verbatim>\<open>pd.to_numeric(..., errors="coerce").fillna(0)\<close>. A row that is skipped
  (\<^verbatim>\<open>continue\<close>) prints a line and has no other effect.
\<close>

fun build_item_list :: "(string \<rightharpoonup> ref_entry) \<Rightarrow> inventory_row list \<Rightarrow> inventory_item list" where
  "build_item_list ref_map [] = []"
| "build_item_list ref_map (row # rest) =
     (let item_n = lower (strip (row_item_name row));
          qty = fillna 0 (to_numeric (row_quantity row))
      in case ref_map item_n of
           None \<Rightarrow> build_item_list ref_map rest
         | Some entry \<Rightarrow>
             (case CATEGORY_MAP (raw_category entry) of
                None \<Rightarrow> build_item_list ref_map rest
              | Some mapped_cat \<Rightarrow>
                  \<lparr>item_name = row_item_name row, category = mapped_cat,
                   servings_available = double_mul qty (servings_per_unit entry)\<rparr>
                  # build_item_list ref_map rest))"

text \<open>
  \<^verbatim>\<open>load_senior_box_data_and_list(cycle_month, ref_map)\<close>. The workbook
  \<^verbatim>\<open>senior_box.xlsx\<close> is a function from the sheet name to the outcome of reading it.
\<close>

definition load_senior_box_data_and_list ::
  "(string \<Rightarrow> inventory_row read_excel) \<Rightarrow> int \<Rightarrow> (string \<rightharpoonup> ref_entry)
     \<Rightarrow> error + (inventory_row list \<times> inventory_item list)" where
  "load_senior_box_data_and_list workbook cycle_month ref_map =
     (let sheet_name = box_sheet_name cycle_month; path = ''data/senior_box.xlsx'' in
      case workbook sheet_name of
        FileNotFoundError \<Rightarrow> Inl (CannotFind path)
      | ValueError \<Rightarrow> Inl (WorksheetNotFound sheet_name path)
      | DataFrame df \<Rightarrow>
          (let box_original = rows df in
           if ''item_name'' \<notin> set (columns df) \<or> ''quantity'' \<notin> set (columns df)
           then Inl (BoxColumnsMissing sheet_name path)
           else Inr (box_original, build_item_list ref_map (rows df))))"

definition load_main_inventory_items ::
  "inventory_row read_excel \<Rightarrow> (string \<rightharpoonup> ref_entry) \<Rightarrow> error + inventory_item list" where
  "load_main_inventory_items file ref_map =
     (let path = ''data/excel_file.xlsx''; sheet_name = ''Inventory'' in
      case file of
        FileNotFoundError \<Rightarrow> Inl (CannotFind path)
      | ValueError \<Rightarrow> Inl (WorksheetNotFound sheet_name path)
      | DataFrame df \<Rightarrow>
          (case missing_column [''item_name'', ''quantity_in_stock''] (columns df) of
             Some c \<Rightarrow> Inl (ColumnMissingInSheet c sheet_name path)
           | None \<Rightarrow> Inr (build_item_list ref_map (rows df))))"

section \<open>The month plan\<close>

text \<open>The three spreadsheets a run reads.\<close>

record data_files =
  food_category_file :: "ref_row read_excel"
  senior_box_file :: "string \<Rightarrow> inventory_row read_excel"
  inventory_file :: "inventory_row read_excel"

text \<open>The entry of \<^verbatim>\<open>all_shortages\<close> and the dict that \<^verbatim>\<open>generate_monthly_plan\<close> returns.\<close>

record shortage_report =
  report_type :: string
  details :: "day_shortage list"

record month_plan =
  month_requested :: int
  cycle_month :: int
  senior_box_items_for_month :: "inventory_row list"
  final_daily_plan :: "day_info list"
  all_shortages :: "shortage_report list"

text \<open>
  \<^verbatim>\<open>generate_monthly_plan(month)\<close>. An exception of a loader ends the run: the first
  \<open>Inl\<close> is the result. \<^verbatim>\<open>range(1, 31)\<close> is the list of the integers from 1 to 30.
\<close>

definition generate_monthly_plan :: "data_files \<Rightarrow> int \<Rightarrow> error + month_plan" where
  "generate_monthly_plan files month =
     (case load_food_reference (food_category_file files) of
        Inl e \<Rightarrow> Inl e
      | Inr ref_map \<Rightarrow>
          (let cyc = get_cycle_month month in
           case load_senior_box_data_and_list (senior_box_file files) cyc ref_map of
             Inl e \<Rightarrow> Inl e
           | Inr (box_original, box_list) \<Rightarrow>
               (case load_main_inventory_items (inventory_file files) ref_map of
                  Inl e \<Rightarrow> Inl e
                | Inr main_list \<Rightarrow>
                    (case plan_days box_list main_list [1 .. 30] [] [] of
                       (box_list', main_list', day_plans, day_shortages) \<Rightarrow>
                         (let all_shortages' =
                                (if day_shortages \<noteq> []
                                 then [\<lparr>report_type = ''meal_plan_shortage'',
                                        details = day_shortages\<rparr>]
                                 else [])
                          in Inr \<lparr>month_requested = month, cycle_month = cyc,
                                  senior_box_items_for_month = box_original,
                                  final_daily_plan = day_plans,
                                  all_shortages = all_shortages'\<rparr>)))))"

section \<open>Rows that are skipped, and the names that appear in a plan\<close>

text \<open>
  The two tests of the inventory loops that end in \<^verbatim>\<open>continue\<close>:
  \<^verbatim>\<open>item_n not in ref_map\<close>, and \<^verbatim>\<open>mapped_cat is None\<close>.
\<close>

definition skipped :: "(string \<rightharpoonup> ref_entry) \<Rightarrow> inventory_row \<Rightarrow> bool" where
  "skipped ref_map row =
     (case ref_map (lower (strip (row_item_name row))) of
        None \<Rightarrow> True
      | Some entry \<Rightarrow> CATEGORY_MAP (raw_category entry) = None)"

text \<open>The item names of the usage records and of the two summaries of a day.\<close>

definition summary_item_names :: "usage_summary list option \<Rightarrow> string set" where
  "summary_item_names summary =
     (case summary of None \<Rightarrow> {} | Some l \<Rightarrow> set (map summary_item_name l))"

definition meals_item_names :: "meal_result list \<Rightarrow> string set" where
  "meals_item_names day_meals =
     set (map used_item_name (concat (map used_items day_meals)))"

definition day_item_names :: "day_info \<Rightarrow> string set" where
  "day_item_names info =
     meals_item_names (meals info)
     \<union> summary_item_names (day_box_usage info)
     \<union> summary_item_names (day_main_usage info)"

definition plan_item_names :: "month_plan \<Rightarrow> string set" where
  "plan_item_names plan = \<Union> (set (map day_item_names (final_daily_plan plan)))"

section \<open>Properties of the cycle month\<close>

text \<open>
  C8: \<^verbatim>\<open>get_cycle_month\<close> computes \<open>((month - 1) mod 3) + 1\<close> for every integer month,
  a number from 1 to 3 that repeats every three months; month 4 gives cycle month 1;
  months 4 and 7 select the same sheet of the senior box.
\<close>

theorem get_cycle_month_rotation:
  "get_cycle_month month = ((month - 1) mod 3) + 1
   \<and> 1 \<le> get_cycle_month month \<and> get_cycle_month month \<le> 3
   \<and> get_cycle_month (month + 3) = get_cycle_month month
   \<and> get_cycle_month 4 = 1
   \<and> get_cycle_month 7 = get_cycle_month 4
   \<and> box_sheet_name (get_cycle_month 7) = box_sheet_name (get_cycle_month 4)
   \<and> box_sheet_name (get_cycle_month 4) = ''Senior Box First Month''"
proof -
  have r: "get_cycle_month month = ((month - 1) mod 3) + 1"
    by (simp add: get_cycle_month_def)
  have b: "1 \<le> get_cycle_month month \<and> get_cycle_month month \<le> 3"
    unfolding get_cycle_month_def by presburger
  have p: "get_cycle_month (month + 3) = get_cycle_month month"
    unfolding get_cycle_month_def by presburger
  have e: "get_cycle_month 4 = 1" "get_cycle_month 7 = 1"
    by (simp_all add: get_cycle_month_def)
  from r b p e show ?thesis by (simp add: box_sheet_name_def)
qed

section \<open>Properties of the floating point model\<close>

text \<open>\<open>ilog2\<close> is the exponent of the leading bit.\<close>

lemma ilog2_bounds_ge1:
  assumes "1 \<le> q"
  shows "2 powi (ilog2 q) \<le> q \<and> q < 2 powi (ilog2 q + 1)"
proof -
  let ?f = "\<lfloor>q\<rfloor>"
  have f: "0 < ?f" using assms by simp
  note b = bitlen_bounds [OF f]
  have B1: "1 \<le> bitlen ?f" using f bitlen_eq_zero_iff [of ?f] bitlen_nonneg [of ?f] by linarith
  have il: "ilog2 q = bitlen ?f - 1" using assms by (simp add: ilog2_def)
  have p1: "(2::rat) powi (bitlen ?f - 1) = of_int (2 ^ nat (bitlen ?f - 1))"
    using B1 by (simp add: power_int_nonneg_exp)
  have p2: "(2::rat) powi (bitlen ?f - 1 + 1) = of_int (2 ^ nat (bitlen ?f))"
    using B1 by (simp add: power_int_nonneg_exp)
  have "(of_int (2 ^ nat (bitlen ?f - 1)) :: rat) \<le> of_int ?f"
    using b by (subst of_int_le_iff) simp
  also have "\<dots> \<le> q" by simp
  finally have lo: "2 powi (ilog2 q) \<le> q" unfolding il p1 .
  have "?f + 1 \<le> 2 ^ nat (bitlen ?f)" using b by simp
  then have "(of_int (?f + 1) :: rat) \<le> of_int (2 ^ nat (bitlen ?f))"
    by (subst of_int_le_iff)
  moreover have "q < of_int (?f + 1)" by simp linarith
  ultimately have hi: "q < 2 powi (ilog2 q + 1)" unfolding il p2 by linarith
  from lo hi show ?thesis by simp
qed

lemma ilog2_bounds_lt1:
  assumes "0 < q" and "q < 1"
  shows "2 powi (ilog2 q) \<le> q \<and> q < 2 powi (ilog2 q + 1)"
proof -
  let ?c = "\<lceil>1 / q\<rceil>"
  let ?N = "?c - 1"
  have inv: "1 < 1 / q" using assms by simp
  then have c2: "2 \<le> ?c" by (simp add: le_ceiling_iff)
  then have N: "0 < ?N" by simp
  note b = bitlen_bounds [OF N]
  let ?B = "bitlen ?N"
  have B1: "1 \<le> ?B" using N bitlen_eq_zero_iff [of ?N] bitlen_nonneg [of ?N] by linarith
  have il: "ilog2 q = - ?B" using assms by (simp add: ilog2_def)
  have p1: "(2::rat) powi (- ?B) = 1 / of_int (2 ^ nat ?B)"
    using B1 by (simp add: power_int_minus_divide power_int_nonneg_exp)
  have p2: "(2::rat) powi (- ?B + 1) = 1 / of_int (2 ^ nat (?B - 1))"
  proof -
    have "(2::rat) powi (- ?B + 1) = 2 powi (- (?B - 1))" by simp
    also have "\<dots> = 1 / of_int (2 ^ nat (?B - 1))"
      using B1 by (simp only: power_int_minus_divide) (simp add: power_int_nonneg_exp)
    finally show ?thesis .
  qed
  have "?c \<le> 2 ^ nat ?B" using b by simp
  then have "(of_int ?c :: rat) \<le> of_int (2 ^ nat ?B)" by (subst of_int_le_iff)
  moreover have "1 / q \<le> of_int ?c" by simp
  ultimately have "1 / q \<le> of_int (2 ^ nat ?B)" by linarith
  then have lo: "2 powi (ilog2 q) \<le> q"
    unfolding il p1 using assms(1) by (simp add: field_simps)
  have "(of_int (2 ^ nat (?B - 1)) :: rat) \<le> of_int ?N"
    using b by (subst of_int_le_iff) simp
  moreover have "(of_int ?N :: rat) < 1 / q"
    using ceiling_correct [of "1 / q"] by simp
  ultimately have "(of_int (2 ^ nat (?B - 1)) :: rat) < 1 / q" by linarith
  then have hi: "q < 2 powi (ilog2 q + 1)"
    unfolding il p2 using assms(1) by (simp add: field_simps)
  from lo hi show ?thesis by simp
qed

lemma ilog2_bounds:
  "0 < q \<Longrightarrow> 2 powi (ilog2 q) \<le> q \<and> q < 2 powi (ilog2 q + 1)"
  using ilog2_bounds_ge1 [of q] ilog2_bounds_lt1 [of q] by (cases "1 \<le> q") auto

lemma ilog2_less:
  assumes "0 < q" and "q < 2 powi m"
  shows "ilog2 q < m"
proof (rule ccontr)
  assume "\<not> ilog2 q < m"
  then have "m \<le> ilog2 q" by simp
  then have "(2::rat) powi m \<le> 2 powi (ilog2 q)" by (intro power_int_increasing) simp_all
  with ilog2_bounds [OF assms(1)] assms(2) show False by linarith
qed

lemma round_half_even_of_int: "round_half_even (of_int n) = n"
  by (simp add: round_half_even_def)

text \<open>
  The rounded number is a whole multiple of the weight of the last bit, and at most half
  that weight away.
\<close>

lemma round_half_even_near: "\<bar>of_int (round_half_even x) - x\<bar> \<le> 1 / 2"
proof -
  have "of_int \<lfloor>x\<rfloor> \<le> x" "x < of_int \<lfloor>x\<rfloor> + 1" by linarith+
  then show ?thesis by (auto simp: round_half_even_def Let_def)
qed

lemma round_double_near:
  assumes "q \<noteq> 0"
  shows "\<bar>round_double q - q\<bar> \<le> 2 powi (max (- 1074) (ilog2 \<bar>q\<bar> - 52)) / 2"
proof -
  define e where "e = max (- 1074) (ilog2 \<bar>q\<bar> - 52)"
  have p: "(0::rat) < 2 powi e" by simp
  have "round_double q - q = (of_int (round_half_even (q / 2 powi e)) - q / 2 powi e) * 2 powi e"
    using assms by (simp add: round_double_def e_def Let_def algebra_simps)
  then have "\<bar>round_double q - q\<bar>
               = \<bar>of_int (round_half_even (q / 2 powi e)) - q / 2 powi e\<bar> * 2 powi e"
    by (simp add: abs_mult)
  also have "\<dots> \<le> (1 / 2) * 2 powi e"
    using round_half_even_near [of "q / 2 powi e"] p by (intro mult_right_mono) simp_all
  finally show ?thesis by (simp add: e_def)
qed

text \<open>A number with fewer than \<open>2 ^ 53\<close> steps of \<open>2 powi k\<close> is a double: rounding keeps it.\<close>

lemma round_double_exact:
  assumes k: "- 1074 \<le> k" and n: "\<bar>n\<bar> < 2 ^ 53"
  shows "round_double (of_int n * 2 powi k) = of_int n * 2 powi k"
proof (cases "n = 0")
  case True
  then show ?thesis by (simp add: round_double_def)
next
  case False
  let ?q = "(of_int n :: rat) * 2 powi k"
  have q0: "?q \<noteq> 0" using False by simp
  have aq: "\<bar>?q\<bar> = of_int \<bar>n\<bar> * 2 powi k" by (simp add: abs_mult)
  have pos: "0 < \<bar>?q\<bar>" using q0 by simp
  have "(of_int \<bar>n\<bar> :: rat) < of_int (2 ^ 53)" using n by (subst of_int_less_iff)
  then have "\<bar>?q\<bar> < 2 ^ 53 * 2 powi k"
    unfolding aq by (intro mult_strict_right_mono) simp_all
  also have "\<dots> = 2 powi (53 + k)" by (simp add: power_int_add)
  finally have "ilog2 \<bar>?q\<bar> < 53 + k" using pos by (intro ilog2_less)
  then have e: "max (- 1074) (ilog2 \<bar>?q\<bar> - 52) \<le> k" using k by simp
  define e where "e = max (- 1074) (ilog2 \<bar>?q\<bar> - 52)"
  have ek: "e \<le> k" using e by (simp add: e_def)
  have "?q / 2 powi e = of_int n * 2 powi (k - e)" by (simp add: power_int_diff)
  also have "\<dots> = of_int (n * 2 ^ nat (k - e))" using ek by (simp add: power_int_nonneg_exp)
  finally have d: "?q / 2 powi e = of_int (n * 2 ^ nat (k - e))" .
  have "round_double ?q = of_int (round_half_even (?q / 2 powi e)) * 2 powi e"
    using q0 unfolding round_double_def e_def by (simp add: Let_def)
  also have "\<dots> = of_int (n * 2 ^ nat (k - e)) * 2 powi e"
    unfolding d round_half_even_of_int ..
  also have "\<dots> = (?q / 2 powi e) * 2 powi e" unfolding d ..
  also have "\<dots> = ?q" by simp
  finally show ?thesis .
qed

lemma on_grid_round:
  assumes "- 1074 \<le> k" and "on_grid k x"
  shows "round_double x = x"
proof -
  let ?n = "\<lfloor>x / 2 powi k\<rfloor>"
  from assms(2) have i: "of_int ?n = x / 2 powi k" and b: "\<bar>x / 2 powi k\<bar> < 2 ^ 53"
    by (simp_all add: on_grid_def)
  have "\<bar>(of_int ?n :: rat)\<bar> < of_int (2 ^ 53)" using b unfolding i by simp
  then have n: "\<bar>?n\<bar> < 2 ^ 53" by (simp only: flip: of_int_abs)
  have x: "x = of_int ?n * 2 powi k" unfolding i by simp
  from round_double_exact [OF assms(1) n] show ?thesis unfolding x [symmetric] .
qed




text \<open>Whole numbers below \<open>2 ^ 53\<close> are doubles.\<close>

lemma round_double_whole:
  assumes "of_int \<lfloor>x\<rfloor> = x" and "\<bar>x\<bar> < 2 ^ 53"
  shows "round_double x = x"
proof -
  have "on_grid 0 x" using assms by (simp add: on_grid_def)
  then show ?thesis by (intro on_grid_round) simp_all
qed

section \<open>Properties of the allocator\<close>

subsection \<open>One scan of a list\<close>

lemma scan_items_nonpos:
  "needed_left \<le> 0 \<Longrightarrow> scan_items src cat items needed_left = (items, [], needed_left)"
  by (induction items) auto


lemma scan_items_used_from:
  "u \<in> set (fst (snd (scan_items src cat items nl))) \<Longrightarrow> used_from u = src"
  by (induction items arbitrary: nl) (auto simp: case_prod_unfold split: if_splits)

text \<open>
  If something is still needed after a scan, the scan has met no item that covered the
  need, and has emptied every item of the category that had something to give. This
  holds whatever the subtraction rounds to.
\<close>

lemma scan_items_exhaust:
  "0 < snd (snd (scan_items src cat items nl)) \<Longrightarrow>
   fst (scan_items src cat items nl) = map (exhaust cat) items"
proof (induction items arbitrary: nl)
  case Nil
  then show ?case by simp
next
  case (Cons item rest)
  show ?case
  proof (cases "0 < nl")
    case False
    then have "scan_items src cat (item # rest) nl = (item # rest, [], nl)"
      by (simp add: scan_items_nonpos)
    with Cons.prems False show ?thesis by simp
  next
    case True
    show ?thesis
    proof (cases "category item = cat")
      case False
      with Cons.prems have "0 < snd (snd (scan_items src cat rest nl))"
        by (simp add: case_prod_unfold)
      from Cons.IH [OF this] False show ?thesis
        by (simp add: case_prod_unfold exhaust_def)
    next
      case cat: True
      show ?thesis
      proof (cases "nl \<le> servings_available item")
        case True
        with cat \<open>0 < nl\<close> Cons.prems show ?thesis by simp
      next
        case nocover: False
        show ?thesis
        proof (cases "0 < servings_available item")
          case True
          with cat \<open>0 < nl\<close> nocover Cons.prems
          have "0 < snd (snd (scan_items src cat rest (double_sub nl (servings_available item))))"
            by (simp add: case_prod_unfold)
          from Cons.IH [OF this] cat \<open>0 < nl\<close> nocover True show ?thesis
            by (simp add: case_prod_unfold exhaust_def)
        next
          case False
          with cat \<open>0 < nl\<close> nocover Cons.prems
          have "0 < snd (snd (scan_items src cat rest nl))"
            by (simp add: case_prod_unfold)
          from Cons.IH [OF this] cat \<open>0 < nl\<close> nocover False show ?thesis
            by (simp add: case_prod_unfold exhaust_def)
        qed
      qed
    qed
  qed
qed

lemma exhaust_nonpos:
  "category (exhaust cat j) = cat \<Longrightarrow> servings_available (exhaust cat j) \<le> 0"
  by (simp add: exhaust_def split: if_splits)

lemma exhaust_nonpos_items:
  assumes "i \<in> set (map (exhaust cat) items)" and "category i = cat"
  shows "servings_available i \<le> 0"
proof -
  from assms(1) obtain j where j: "i = exhaust cat j" by auto
  from assms(2) show ?thesis unfolding j by (rule exhaust_nonpos)
qed






subsection \<open>The two scans together\<close>


lemma allocate_category_parts:
  assumes "allocate_category bl ml cat needed = (bl', ml', used, nl, short)"
  shows "bl' = fst (scan_items FromBox cat bl needed) \<and>
   used = fst (snd (scan_items FromBox cat bl needed)) @
          (if 0 < snd (snd (scan_items FromBox cat bl needed))
           then fst (snd (scan_items FromMain cat ml (snd (snd (scan_items FromBox cat bl needed)))))
           else []) \<and>
   ml' = (if 0 < snd (snd (scan_items FromBox cat bl needed))
          then fst (scan_items FromMain cat ml (snd (snd (scan_items FromBox cat bl needed))))
          else ml) \<and>
   nl = (if 0 < snd (snd (scan_items FromBox cat bl needed))
         then snd (snd (scan_items FromMain cat ml (snd (snd (scan_items FromBox cat bl needed)))))
         else snd (snd (scan_items FromBox cat bl needed))) \<and>
   short = (0 < nl)"
proof (cases "0 < snd (snd (scan_items FromBox cat bl needed))")
  case True
  with assms show ?thesis
    by (auto simp: allocate_category_def case_prod_unfold)
next
  case False
  with assms show ?thesis
    by (auto simp: allocate_category_def case_prod_unfold)
qed


text \<open>
  C10: a call with \<open>needed \<le> 0\<close> changes no item of either list, returns no usage record,
  is not short, and returns \<open>needed\<close> itself as the shortfall: a negative \<open>needed\<close> gives
  a negative shortfall.
\<close>

theorem allocate_category_nonpositive_needed:
  "needed \<le> 0 \<Longrightarrow>
   allocate_category box_list main_list cat needed = (box_list, main_list, [], needed, False)"
  by (simp add: allocate_category_def scan_items_nonpos)

theorem allocate_category_nonpositive_needed_witness:
  "(-2::rat) \<le> 0 \<and>
   allocate_category
     [\<lparr>item_name = ''Milk'', category = ''dairy'', servings_available = 4\<rparr>]
     [\<lparr>item_name = ''Rice'', category = ''cereal'', servings_available = 7\<rparr>] ''dairy'' (-2)
   = ([\<lparr>item_name = ''Milk'', category = ''dairy'', servings_available = 4\<rparr>],
      [\<lparr>item_name = ''Rice'', category = ''cereal'', servings_available = 7\<rparr>], [], -2, False)"
  using allocate_category_nonpositive_needed [of "-2"] by simp










text \<open>
  C3, as amended: in every call, a returned record with source main implies that
  \<^verbatim>\<open>needed_left\<close> was still positive after the whole scan of the box list, and that every
  box item of the category that had positive servings has been reduced to zero, the other
  box items being as before; so no box item of the category has positive servings left.
  This holds for every order of the box items.
\<close>

theorem allocate_category_box_first:
  assumes "allocate_category box_list main_list cat needed = (box_list', main_list', used, needed_left, short)"
    and "u \<in> set used" and "used_from u = FromMain"
  shows "0 < snd (snd (scan_items FromBox cat box_list needed))
         \<and> box_list' = map (exhaust cat) box_list
         \<and> (\<forall>i \<in> set box_list'. category i = cat \<longrightarrow> servings_available i \<le> 0)"
proof -
  note p = allocate_category_parts [OF assms(1)]
  let ?l1 = "snd (snd (scan_items FromBox cat box_list needed))"
  have notbox: "u \<notin> set (fst (snd (scan_items FromBox cat box_list needed)))"
    using scan_items_used_from [of u FromBox cat box_list needed] assms(3) by auto
  have l1pos: "0 < ?l1"
  proof (rule ccontr)
    assume "\<not> 0 < ?l1"
    then have "used = fst (snd (scan_items FromBox cat box_list needed))" using p by simp
    with assms(2) notbox show False by simp
  qed
  then have b: "box_list' = map (exhaust cat) box_list"
    using p scan_items_exhaust by simp
  have "\<forall>i \<in> set box_list'. category i = cat \<longrightarrow> servings_available i \<le> 0"
    unfolding b using exhaust_nonpos_items by blast
  with l1pos b show ?thesis by simp
qed

theorem allocate_category_box_first_witness:
  "allocate_category
      [\<lparr>item_name = ''Rice'', category = ''cereal'', servings_available = 9\<rparr>,
       \<lparr>item_name = ''Milk'', category = ''dairy'', servings_available = 2\<rparr>]
      [\<lparr>item_name = ''Cheese'', category = ''dairy'', servings_available = 4\<rparr>]
      ''dairy'' 5
     = ([\<lparr>item_name = ''Rice'', category = ''cereal'', servings_available = 9\<rparr>,
         \<lparr>item_name = ''Milk'', category = ''dairy'', servings_available = 0\<rparr>],
        [\<lparr>item_name = ''Cheese'', category = ''dairy'', servings_available = 1\<rparr>],
        [\<lparr>used_item_name = ''Milk'', used_category = ''dairy'', servings_used = 2, used_from = FromBox\<rparr>,
         \<lparr>used_item_name = ''Cheese'', used_category = ''dairy'', servings_used = 3, used_from = FromMain\<rparr>],
        0, False)
   \<and> \<lparr>used_item_name = ''Cheese'', used_category = ''dairy'', servings_used = 3, used_from = FromMain\<rparr>
       \<in> set [\<lparr>used_item_name = ''Milk'', used_category = ''dairy'', servings_used = 2, used_from = FromBox\<rparr>,
         \<lparr>used_item_name = ''Cheese'', used_category = ''dairy'', servings_used = 3, used_from = FromMain\<rparr>]
   \<and> used_from \<lparr>used_item_name = ''Cheese'', used_category = ''dairy'', servings_used = 3, used_from = FromMain\<rparr>
       = FromMain
   \<and> 0 < snd (snd (scan_items FromBox ''dairy''
         [\<lparr>item_name = ''Rice'', category = ''cereal'', servings_available = 9\<rparr>,
          \<lparr>item_name = ''Milk'', category = ''dairy'', servings_available = 2\<rparr>] 5))
   \<and> [\<lparr>item_name = ''Rice'', category = ''cereal'', servings_available = 9\<rparr>,
       \<lparr>item_name = ''Milk'', category = ''dairy'', servings_available = 0\<rparr>]
       = map (exhaust ''dairy'')
         [\<lparr>item_name = ''Rice'', category = ''cereal'', servings_available = 9\<rparr>,
          \<lparr>item_name = ''Milk'', category = ''dairy'', servings_available = 2\<rparr>]"
proof -
  have h1: "allocate_category
      [\<lparr>item_name = ''Rice'', category = ''cereal'', servings_available = 9\<rparr>,
       \<lparr>item_name = ''Milk'', category = ''dairy'', servings_available = 2\<rparr>]
      [\<lparr>item_name = ''Cheese'', category = ''dairy'', servings_available = 4\<rparr>]
      ''dairy'' 5
     = ([\<lparr>item_name = ''Rice'', category = ''cereal'', servings_available = 9\<rparr>,
         \<lparr>item_name = ''Milk'', category = ''dairy'', servings_available = 0\<rparr>],
        [\<lparr>item_name = ''Cheese'', category = ''dairy'', servings_available = 1\<rparr>],
        [\<lparr>used_item_name = ''Milk'', used_category = ''dairy'', servings_used = 2, used_from = FromBox\<rparr>,
         \<lparr>used_item_name = ''Cheese'', used_category = ''dairy'', servings_used = 3, used_from = FromMain\<rparr>],
        0, False)"
    by code_simp
  have h2: "\<lparr>used_item_name = ''Cheese'', used_category = ''dairy'', servings_used = 3, used_from = FromMain\<rparr>
       \<in> set [\<lparr>used_item_name = ''Milk'', used_category = ''dairy'', servings_used = 2, used_from = FromBox\<rparr>,
         \<lparr>used_item_name = ''Cheese'', used_category = ''dairy'', servings_used = 3, used_from = FromMain\<rparr>]"
    by simp
  have h3: "used_from \<lparr>used_item_name = ''Cheese'', used_category = ''dairy'', servings_used = 3, used_from = FromMain\<rparr>
       = FromMain"
    by simp
  note c = allocate_category_box_first [OF h1 h2 h3]
  from c have c1: "0 < snd (snd (scan_items FromBox ''dairy''
         [\<lparr>item_name = ''Rice'', category = ''cereal'', servings_available = 9\<rparr>,
          \<lparr>item_name = ''Milk'', category = ''dairy'', servings_available = 2\<rparr>] 5))"
    by blast
  from c have c2: "[\<lparr>item_name = ''Rice'', category = ''cereal'', servings_available = 9\<rparr>,
       \<lparr>item_name = ''Milk'', category = ''dairy'', servings_available = 0\<rparr>]
       = map (exhaust ''dairy'')
         [\<lparr>item_name = ''Rice'', category = ''cereal'', servings_available = 9\<rparr>,
          \<lparr>item_name = ''Milk'', category = ''dairy'', servings_available = 2\<rparr>]"
    by blast
  from h1 h2 h3 c1 c2 show ?thesis by (intro conjI)
qed

text \<open>
  A box item of the category with negative servings is not reduced to zero: it stays as it
  is while the main list is consumed.
\<close>

theorem allocate_category_box_first_counterexample:
  "allocate_category
      [\<lparr>item_name = ''Milk'', category = ''dairy'', servings_available = -3\<rparr>]
      [\<lparr>item_name = ''Cheese'', category = ''dairy'', servings_available = 5\<rparr>] ''dairy'' 2
     = ([\<lparr>item_name = ''Milk'', category = ''dairy'', servings_available = -3\<rparr>],
        [\<lparr>item_name = ''Cheese'', category = ''dairy'', servings_available = 3\<rparr>],
        [\<lparr>used_item_name = ''Cheese'', used_category = ''dairy'', servings_used = 2, used_from = FromMain\<rparr>],
        0, False)
   \<and> category \<lparr>item_name = ''Milk'', category = ''dairy'', servings_available = -3\<rparr> = ''dairy''
   \<and> servings_available \<lparr>item_name = ''Milk'', category = ''dairy'', servings_available = -3\<rparr> \<noteq> 0"
  by code_simp

section \<open>Properties of meals and days\<close>

text \<open>The values of \<^verbatim>\<open>meal_time\<close>: the keys without \<^verbatim>\<open>Plan\<close>.\<close>

lemma meal_time_of_key:
  "map (\<lambda>k. str_replace ''Plan'' [] (meal_key_name k)) MEAL_ORDER
     = [''Breakfast'', ''Lunch'', ''Dinner'']"
  by (simp add: MEAL_ORDER_def)

lemma allocate_meal_loop_acc:
  "allocate_meal_loop bl ml plan used s =
     (fst (allocate_meal_loop bl ml plan [] False),
      fst (snd (allocate_meal_loop bl ml plan [] False)),
      used @ fst (snd (snd (allocate_meal_loop bl ml plan [] False))),
      s \<or> snd (snd (snd (allocate_meal_loop bl ml plan [] False))))"
proof (induction plan arbitrary: bl ml used s)
  case Nil
  then show ?case by simp
next
  case (Cons p rest)
  obtain cat needed where p: "p = (cat, needed)" by (cases p)
  show ?case
  proof (cases "needed \<le> 0")
    case True
    then show ?thesis using Cons.IH [of bl ml used s] by (simp add: p)
  next
    case False
    obtain bl' ml' cu lo sh where ac: "allocate_category bl ml cat needed = (bl', ml', cu, lo, sh)"
      by (cases "allocate_category bl ml cat needed")
    have L: "allocate_meal_loop bl ml (p # rest) used s
               = allocate_meal_loop bl' ml' rest (used @ cu) (sh \<or> s)"
      using False by (simp add: p ac)
    have R: "allocate_meal_loop bl ml (p # rest) [] False = allocate_meal_loop bl' ml' rest cu sh"
      using False by (simp add: p ac)
    show ?thesis
      unfolding L R
      by (subst Cons.IH [of bl' ml' "used @ cu" "sh \<or> s"], subst (1 2 3 4) Cons.IH [of bl' ml' cu sh])
         auto
  qed
qed

lemma allocate_meal_loop_append:
  "allocate_meal_loop bl ml (p1 @ p2) used s =
     (case allocate_meal_loop bl ml p1 used s of
        (b, m, u, s') \<Rightarrow> allocate_meal_loop b m p2 u s')"
  by (induction p1 arbitrary: bl ml used s) (auto split: prod.splits)

text \<open>
  C5: \<^verbatim>\<open>allocate_meal\<close> allocates every category of the requirements with \<open>needed > 0\<close>,
  whether or not an earlier category was short: the category is allocated on the lists as
  the categories before it left them, the categories after it are processed on the lists
  it leaves, the records of all of them are in the returned list, and the lists returned
  are those after the last category: nothing is rolled back.
\<close>

theorem allocate_meal_no_early_exit:
  assumes "0 < needed"
  shows "allocate_meal box_list main_list (before @ (cat, needed) # after) =
     (case allocate_meal box_list main_list before of
        (box1, main1, used1, short1) \<Rightarrow>
          (case allocate_category box1 main1 cat needed of
             (box2, main2, cat_used, leftover, short2) \<Rightarrow>
               (case allocate_meal box2 main2 after of
                  (box3, main3, used3, short3) \<Rightarrow>
                    (box3, main3, used1 @ cat_used @ used3, short1 \<or> short2 \<or> short3))))"
proof -
  obtain box1 main1 used1 short1 where b: "allocate_meal box_list main_list before = (box1, main1, used1, short1)"
    by (cases "allocate_meal box_list main_list before")
  obtain box2 main2 cat_used leftover short2 where
    c: "allocate_category box1 main1 cat needed = (box2, main2, cat_used, leftover, short2)"
    by (cases "allocate_category box1 main1 cat needed")
  obtain box3 main3 used3 short3 where a: "allocate_meal box2 main2 after = (box3, main3, used3, short3)"
    by (cases "allocate_meal box2 main2 after")
  have "allocate_meal box_list main_list (before @ (cat, needed) # after)
          = allocate_meal_loop box1 main1 ((cat, needed) # after) used1 short1"
    using b by (simp add: allocate_meal_def allocate_meal_loop_append)
  also have "\<dots> = allocate_meal_loop box2 main2 after (used1 @ cat_used) (short2 \<or> short1)"
    using assms c by simp
  also have "\<dots> = (box3, main3, (used1 @ cat_used) @ used3, (short2 \<or> short1) \<or> short3)"
    using a by (subst allocate_meal_loop_acc) (simp add: allocate_meal_def)
  finally show ?thesis by (simp add: b c a disj_ac)
qed

theorem allocate_meal_no_early_exit_witness:
  "(0::rat) < 1
   \<and> allocate_meal [\<lparr>item_name = ''Apple'', category = ''fruit_veg'', servings_available = 3\<rparr>,
                     \<lparr>item_name = ''Milk'', category = ''dairy'', servings_available = 2\<rparr>] []
        ([(''fruit_veg'', 1), (''protein'', 1)] @ (''dairy'', 1) # [(''oil'', 1)])
     = ([\<lparr>item_name = ''Apple'', category = ''fruit_veg'', servings_available = 2\<rparr>,
         \<lparr>item_name = ''Milk'', category = ''dairy'', servings_available = 1\<rparr>], [],
        [\<lparr>used_item_name = ''Apple'', used_category = ''fruit_veg'', servings_used = 1, used_from = FromBox\<rparr>,
         \<lparr>used_item_name = ''Milk'', used_category = ''dairy'', servings_used = 1, used_from = FromBox\<rparr>],
        True)
   \<and> allocate_meal [\<lparr>item_name = ''Apple'', category = ''fruit_veg'', servings_available = 3\<rparr>,
                     \<lparr>item_name = ''Milk'', category = ''dairy'', servings_available = 2\<rparr>] []
        [(''fruit_veg'', 1), (''protein'', 1)]
     = ([\<lparr>item_name = ''Apple'', category = ''fruit_veg'', servings_available = 2\<rparr>,
         \<lparr>item_name = ''Milk'', category = ''dairy'', servings_available = 2\<rparr>], [],
        [\<lparr>used_item_name = ''Apple'', used_category = ''fruit_veg'', servings_used = 1, used_from = FromBox\<rparr>],
        True)"
proof -
  have h: "(0::rat) < 1" by simp
  have b: "allocate_meal [\<lparr>item_name = ''Apple'', category = ''fruit_veg'', servings_available = 3\<rparr>,
                     \<lparr>item_name = ''Milk'', category = ''dairy'', servings_available = 2\<rparr>] []
        [(''fruit_veg'', 1), (''protein'', 1)]
     = ([\<lparr>item_name = ''Apple'', category = ''fruit_veg'', servings_available = 2\<rparr>,
         \<lparr>item_name = ''Milk'', category = ''dairy'', servings_available = 2\<rparr>], [],
        [\<lparr>used_item_name = ''Apple'', used_category = ''fruit_veg'', servings_used = 1, used_from = FromBox\<rparr>],
        True)"
    by code_simp
  have c: "allocate_category [\<lparr>item_name = ''Apple'', category = ''fruit_veg'', servings_available = 2\<rparr>,
         \<lparr>item_name = ''Milk'', category = ''dairy'', servings_available = 2\<rparr>] [] ''dairy'' 1
     = ([\<lparr>item_name = ''Apple'', category = ''fruit_veg'', servings_available = 2\<rparr>,
         \<lparr>item_name = ''Milk'', category = ''dairy'', servings_available = 1\<rparr>], [],
        [\<lparr>used_item_name = ''Milk'', used_category = ''dairy'', servings_used = 1, used_from = FromBox\<rparr>],
        0, False)"
    by code_simp
  have a: "allocate_meal [\<lparr>item_name = ''Apple'', category = ''fruit_veg'', servings_available = 2\<rparr>,
         \<lparr>item_name = ''Milk'', category = ''dairy'', servings_available = 1\<rparr>] [] [(''oil'', 1)]
     = ([\<lparr>item_name = ''Apple'', category = ''fruit_veg'', servings_available = 2\<rparr>,
         \<lparr>item_name = ''Milk'', category = ''dairy'', servings_available = 1\<rparr>], [], [], True)"
    by code_simp
  show ?thesis
    using allocate_meal_no_early_exit [OF h,
      of "[\<lparr>item_name = ''Apple'', category = ''fruit_veg'', servings_available = 3\<rparr>,
           \<lparr>item_name = ''Milk'', category = ''dairy'', servings_available = 2\<rparr>]" "[]"
         "[(''fruit_veg'', 1), (''protein'', 1)]" "''dairy''" "[(''oil'', 1)]"]
    by (simp only: b c a prod.case h) simp
qed

lemma run_meals_day:
  assumes "allocate_meal bl ml (MEALS BreakfastPlan) = (b1, m1, u1, s1)"
    and "allocate_meal b1 m1 (MEALS LunchPlan) = (b2, m2, u2, s2)"
    and "allocate_meal b2 m2 (MEALS DinnerPlan) = (b3, m3, u3, s3)"
  shows "snd (snd (snd (run_meals bl ml MEAL_ORDER []))) = (s1 \<or> s2 \<or> s3)"
  using assms by (simp add: MEAL_ORDER_def Let_def del: MEALS.simps)

text \<open>
  C4: for every day of the month plan, if one of the three meals, allocated in order on
  the lists as the meals before it left them, reports a shortage, then the two lists after
  the day are the two lists before the day, and the entry of the day has an empty list of
  meals and neither \<^verbatim>\<open>day_box_usage\<close> nor \<^verbatim>\<open>day_main_usage\<close>.
\<close>

theorem plan_day_rollback:
  assumes "allocate_meal box_list main_list (MEALS BreakfastPlan) = (box1, main1, used1, short1)"
    and "allocate_meal box1 main1 (MEALS LunchPlan) = (box2, main2, used2, short2)"
    and "allocate_meal box2 main2 (MEALS DinnerPlan) = (box3, main3, used3, short3)"
    and "short1 \<or> short2 \<or> short3"
  shows "plan_day box_list main_list day_num =
           (box_list, main_list,
            \<lparr>day_number = day_num, meals = [], day_box_usage = None, day_main_usage = None\<rparr>,
            Some \<lparr>shortage_day_number = day_num,
                  shortages = [''Not enough box+main inventory to fulfill 5-4-3-2-1 plan'']\<rparr>)"
proof -
  have "snd (snd (snd (run_meals box_list main_list MEAL_ORDER [])))"
    using run_meals_day [OF assms(1-3)] assms(4) by simp
  then show ?thesis
    by (simp add: plan_day_def case_prod_unfold)
qed

theorem plan_day_rollback_witness:
  "allocate_meal
      [\<lparr>item_name = ''Apple'', category = ''fruit_veg'', servings_available = 3\<rparr>,
       \<lparr>item_name = ''Oats'', category = ''cereal'', servings_available = 5\<rparr>,
       \<lparr>item_name = ''Milk'', category = ''dairy'', servings_available = 2\<rparr>] [] (MEALS BreakfastPlan)
     = ([\<lparr>item_name = ''Apple'', category = ''fruit_veg'', servings_available = 2\<rparr>,
         \<lparr>item_name = ''Oats'', category = ''cereal'', servings_available = 4\<rparr>,
         \<lparr>item_name = ''Milk'', category = ''dairy'', servings_available = 1\<rparr>], [],
        [\<lparr>used_item_name = ''Apple'', used_category = ''fruit_veg'', servings_used = 1, used_from = FromBox\<rparr>,
         \<lparr>used_item_name = ''Oats'', used_category = ''cereal'', servings_used = 1, used_from = FromBox\<rparr>,
         \<lparr>used_item_name = ''Milk'', used_category = ''dairy'', servings_used = 1, used_from = FromBox\<rparr>],
        False)
   \<and> allocate_meal
      [\<lparr>item_name = ''Apple'', category = ''fruit_veg'', servings_available = 2\<rparr>,
       \<lparr>item_name = ''Oats'', category = ''cereal'', servings_available = 4\<rparr>,
       \<lparr>item_name = ''Milk'', category = ''dairy'', servings_available = 1\<rparr>] [] (MEALS LunchPlan)
     = ([\<lparr>item_name = ''Apple'', category = ''fruit_veg'', servings_available = 0\<rparr>,
         \<lparr>item_name = ''Oats'', category = ''cereal'', servings_available = 3\<rparr>,
         \<lparr>item_name = ''Milk'', category = ''dairy'', servings_available = 1\<rparr>], [],
        [\<lparr>used_item_name = ''Apple'', used_category = ''fruit_veg'', servings_used = 2, used_from = FromBox\<rparr>,
         \<lparr>used_item_name = ''Oats'', used_category = ''cereal'', servings_used = 1, used_from = FromBox\<rparr>],
        True)
   \<and> allocate_meal
      [\<lparr>item_name = ''Apple'', category = ''fruit_veg'', servings_available = 0\<rparr>,
       \<lparr>item_name = ''Oats'', category = ''cereal'', servings_available = 3\<rparr>,
       \<lparr>item_name = ''Milk'', category = ''dairy'', servings_available = 1\<rparr>] [] (MEALS DinnerPlan)
     = ([\<lparr>item_name = ''Apple'', category = ''fruit_veg'', servings_available = 0\<rparr>,
         \<lparr>item_name = ''Oats'', category = ''cereal'', servings_available = 1\<rparr>,
         \<lparr>item_name = ''Milk'', category = ''dairy'', servings_available = 0\<rparr>], [],
        [\<lparr>used_item_name = ''Oats'', used_category = ''cereal'', servings_used = 2, used_from = FromBox\<rparr>,
         \<lparr>used_item_name = ''Milk'', used_category = ''dairy'', servings_used = 1, used_from = FromBox\<rparr>],
        True)
   \<and> plan_day
      [\<lparr>item_name = ''Apple'', category = ''fruit_veg'', servings_available = 3\<rparr>,
       \<lparr>item_name = ''Oats'', category = ''cereal'', servings_available = 5\<rparr>,
       \<lparr>item_name = ''Milk'', category = ''dairy'', servings_available = 2\<rparr>] [] 7
     = ([\<lparr>item_name = ''Apple'', category = ''fruit_veg'', servings_available = 3\<rparr>,
         \<lparr>item_name = ''Oats'', category = ''cereal'', servings_available = 5\<rparr>,
         \<lparr>item_name = ''Milk'', category = ''dairy'', servings_available = 2\<rparr>], [],
        \<lparr>day_number = 7, meals = [], day_box_usage = None, day_main_usage = None\<rparr>,
        Some \<lparr>shortage_day_number = 7,
              shortages = [''Not enough box+main inventory to fulfill 5-4-3-2-1 plan'']\<rparr>)"
proof -
  have h1: "allocate_meal
      [\<lparr>item_name = ''Apple'', category = ''fruit_veg'', servings_available = 3\<rparr>,
       \<lparr>item_name = ''Oats'', category = ''cereal'', servings_available = 5\<rparr>,
       \<lparr>item_name = ''Milk'', category = ''dairy'', servings_available = 2\<rparr>] [] (MEALS BreakfastPlan)
     = ([\<lparr>item_name = ''Apple'', category = ''fruit_veg'', servings_available = 2\<rparr>,
         \<lparr>item_name = ''Oats'', category = ''cereal'', servings_available = 4\<rparr>,
         \<lparr>item_name = ''Milk'', category = ''dairy'', servings_available = 1\<rparr>], [],
        [\<lparr>used_item_name = ''Apple'', used_category = ''fruit_veg'', servings_used = 1, used_from = FromBox\<rparr>,
         \<lparr>used_item_name = ''Oats'', used_category = ''cereal'', servings_used = 1, used_from = FromBox\<rparr>,
         \<lparr>used_item_name = ''Milk'', used_category = ''dairy'', servings_used = 1, used_from = FromBox\<rparr>],
        False)"
    by code_simp
  have h2: "allocate_meal
      [\<lparr>item_name = ''Apple'', category = ''fruit_veg'', servings_available = 2\<rparr>,
       \<lparr>item_name = ''Oats'', category = ''cereal'', servings_available = 4\<rparr>,
       \<lparr>item_name = ''Milk'', category = ''dairy'', servings_available = 1\<rparr>] [] (MEALS LunchPlan)
     = ([\<lparr>item_name = ''Apple'', category = ''fruit_veg'', servings_available = 0\<rparr>,
         \<lparr>item_name = ''Oats'', category = ''cereal'', servings_available = 3\<rparr>,
         \<lparr>item_name = ''Milk'', category = ''dairy'', servings_available = 1\<rparr>], [],
        [\<lparr>used_item_name = ''Apple'', used_category = ''fruit_veg'', servings_used = 2, used_from = FromBox\<rparr>,
         \<lparr>used_item_name = ''Oats'', used_category = ''cereal'', servings_used = 1, used_from = FromBox\<rparr>],
        True)"
    by code_simp
  have h3: "allocate_meal
      [\<lparr>item_name = ''Apple'', category = ''fruit_veg'', servings_available = 0\<rparr>,
       \<lparr>item_name = ''Oats'', category = ''cereal'', servings_available = 3\<rparr>,
       \<lparr>item_name = ''Milk'', category = ''dairy'', servings_available = 1\<rparr>] [] (MEALS DinnerPlan)
     = ([\<lparr>item_name = ''Apple'', category = ''fruit_veg'', servings_available = 0\<rparr>,
         \<lparr>item_name = ''Oats'', category = ''cereal'', servings_available = 1\<rparr>,
         \<lparr>item_name = ''Milk'', category = ''dairy'', servings_available = 0\<rparr>], [],
        [\<lparr>used_item_name = ''Oats'', used_category = ''cereal'', servings_used = 2, used_from = FromBox\<rparr>,
         \<lparr>used_item_name = ''Milk'', used_category = ''dairy'', servings_used = 1, used_from = FromBox\<rparr>],
        True)"
    by code_simp
  have h4: "False \<or> True \<or> True" by simp
  note c = plan_day_rollback [OF h1 h2 h3 h4, of 7]
  show ?thesis by (intro conjI; fact)
qed

section \<open>Properties of the food reference\<close>

text \<open>The model of \<^verbatim>\<open>str.lower\<close> on a letter from A to Z adds 32 to its code.\<close>

lemma of_bool_le_one: "of_bool b \<le> (1::nat)"
  by simp

lemma lower_char_plus_32:
  assumes "65 \<le> (of_char c :: nat)" and "(of_char c :: nat) \<le> 90"
  shows "(of_char (lower_char c) :: nat) = of_char c + 32"
proof (cases c)
  case (Char b0 b1 b2 b3 b4 b5 b6 b7)
  have "\<not> b5"
    using assms of_bool_le_one [of b0] of_bool_le_one [of b1] of_bool_le_one [of b2]
      of_bool_le_one [of b3] of_bool_le_one [of b4]
    unfolding Char by (cases b5; cases b6; cases b7; simp)
  then show ?thesis using assms by (simp add: lower_char_def Char)
qed

lemma find_append_first:
  "find P (xs @ ys) = (case find P xs of None \<Rightarrow> find P ys | Some x \<Rightarrow> Some x)"
  by (induction xs) auto

lemma find_Some_in_set: "find P xs = Some x \<Longrightarrow> x \<in> set xs"
  by (induction xs) (auto split: if_splits)

lemma fillna_to_numeric:
  "fillna d (to_numeric c) = (case c of Numeric v \<Rightarrow> v | NonNumeric \<Rightarrow> d | Missing \<Rightarrow> d)"
  by (cases c) simp_all

lemma build_ref_map_lookup:
  "build_ref_map rs m k =
     (case find (\<lambda>row. lower (strip (ref_item_name row)) = k) (rev rs) of
        None \<Rightarrow> m k
      | Some row \<Rightarrow> Some \<lparr>raw_category = lower (strip (ref_item_category row)),
           servings_per_unit =
             (case ref_servings_per_unit row of Numeric v \<Rightarrow> v | NonNumeric \<Rightarrow> 1 | Missing \<Rightarrow> 1)\<rparr>)"
  by (induction rs arbitrary: m)
     (auto simp: find_append_first fillna_to_numeric Let_def split: option.splits)

lemma load_food_reference_frame:
  "load_food_reference (DataFrame df) = Inr ref_map \<Longrightarrow> ref_map = build_ref_map (rows df) Map.empty"
  by (auto simp: load_food_reference_def split: option.splits)

text \<open>
  C6, as amended: the entry of the reference map under a name is that of the last row
  whose lowercased trimmed item name is that name; its \<^verbatim>\<open>servings_per_unit\<close> is the number
  of the row's cell, and 1 when the cell is missing or not numeric. So every entry has
  \<^verbatim>\<open>servings_per_unit >= 0\<close> when no numeric cell of the column is negative.
\<close>

theorem load_food_reference_entries:
  assumes "load_food_reference (DataFrame df) = Inr ref_map"
  shows "ref_map name =
           (case find (\<lambda>row. lower (strip (ref_item_name row)) = name) (rev (rows df)) of
              None \<Rightarrow> None
            | Some row \<Rightarrow>
                Some \<lparr>raw_category = lower (strip (ref_item_category row)),
                      servings_per_unit =
                        (case ref_servings_per_unit row of
                           Numeric v \<Rightarrow> v | NonNumeric \<Rightarrow> 1 | Missing \<Rightarrow> 1)\<rparr>)
         \<and> ((\<forall>row \<in> set (rows df). \<forall>v. ref_servings_per_unit row = Numeric v \<longrightarrow> 0 \<le> v)
              \<longrightarrow> (\<forall>n entry. ref_map n = Some entry \<longrightarrow> 0 \<le> servings_per_unit entry))"
proof -
  have m: "ref_map = build_ref_map (rows df) Map.empty"
    using assms by (rule load_food_reference_frame)
  have look: "\<And>k. ref_map k =
           (case find (\<lambda>row. lower (strip (ref_item_name row)) = k) (rev (rows df)) of
              None \<Rightarrow> None
            | Some row \<Rightarrow>
                Some \<lparr>raw_category = lower (strip (ref_item_category row)),
                      servings_per_unit =
                        (case ref_servings_per_unit row of
                           Numeric v \<Rightarrow> v | NonNumeric \<Rightarrow> 1 | Missing \<Rightarrow> 1)\<rparr>)"
    unfolding m by (subst build_ref_map_lookup) simp
  have nonneg: "(\<forall>row \<in> set (rows df). \<forall>v. ref_servings_per_unit row = Numeric v \<longrightarrow> 0 \<le> v)
              \<longrightarrow> (\<forall>n entry. ref_map n = Some entry \<longrightarrow> 0 \<le> servings_per_unit entry)"
  proof (intro impI allI)
    fix n entry
    assume a: "\<forall>row \<in> set (rows df). \<forall>v. ref_servings_per_unit row = Numeric v \<longrightarrow> 0 \<le> v"
      and e: "ref_map n = Some entry"
    from e look [of n] obtain row where
      f: "find (\<lambda>row. lower (strip (ref_item_name row)) = n) (rev (rows df)) = Some row"
      and v: "servings_per_unit entry =
                (case ref_servings_per_unit row of Numeric v \<Rightarrow> v | NonNumeric \<Rightarrow> 1 | Missing \<Rightarrow> 1)"
      by (auto split: option.splits)
    from f have "row \<in> set (rev (rows df))" by (rule find_Some_in_set)
    then have "row \<in> set (rows df)" by simp
    with a v show "0 \<le> servings_per_unit entry"
      by (cases "ref_servings_per_unit row") auto
  qed
  from look [of name] nonneg show ?thesis by simp
qed

theorem load_food_reference_entries_witness:
  "load_food_reference (DataFrame
      \<lparr>columns = [''item_name'', ''item_category'', ''servings_per_unit''],
       rows = [\<lparr>ref_item_name = '' Apple'', ref_item_category = ''Oil'', ref_servings_per_unit = Numeric 2\<rparr>,
               \<lparr>ref_item_name = ''apple  '', ref_item_category = ''Grains'', ref_servings_per_unit = NonNumeric\<rparr>]\<rparr>)
     = Inr [''apple'' \<mapsto> \<lparr>raw_category = ''grains'', servings_per_unit = 1\<rparr>]
   \<and> [''apple'' \<mapsto> \<lparr>raw_category = ''grains'', servings_per_unit = 1\<rparr>] ''apple''
       = Some \<lparr>raw_category = ''grains'', servings_per_unit = 1\<rparr>"
proof -
  have h: "load_food_reference (DataFrame
      \<lparr>columns = [''item_name'', ''item_category'', ''servings_per_unit''],
       rows = [\<lparr>ref_item_name = '' Apple'', ref_item_category = ''Oil'', ref_servings_per_unit = Numeric 2\<rparr>,
               \<lparr>ref_item_name = ''apple  '', ref_item_category = ''Grains'', ref_servings_per_unit = NonNumeric\<rparr>]\<rparr>)
     = Inr [''apple'' \<mapsto> \<lparr>raw_category = ''grains'', servings_per_unit = 1\<rparr>]"
    by (simp add: load_food_reference_def missing_column_def lower_def strip_def is_space_def
        lower_char_def)
  from load_food_reference_entries [OF h, of "''apple''"] h show ?thesis
    by (simp add: lower_def strip_def is_space_def lower_char_def)
qed

text \<open>
  Nothing in \<^verbatim>\<open>load_food_reference\<close> rejects or changes a negative number: a row with
  \<^verbatim>\<open>servings_per_unit\<close> -2 gives an entry with -2.
\<close>

theorem load_food_reference_entries_counterexample:
  "load_food_reference (DataFrame
      \<lparr>columns = [''item_name'', ''item_category'', ''servings_per_unit''],
       rows = [\<lparr>ref_item_name = ''Apple'', ref_item_category = ''Oil'',
                ref_servings_per_unit = Numeric (-2)\<rparr>]\<rparr>)
     = Inr [''apple'' \<mapsto> \<lparr>raw_category = ''oil'', servings_per_unit = -2\<rparr>]
   \<and> [''apple'' \<mapsto> \<lparr>raw_category = ''oil'', servings_per_unit = -2\<rparr>] ''apple''
       = Some \<lparr>raw_category = ''oil'', servings_per_unit = -2\<rparr>
   \<and> \<not> 0 \<le> servings_per_unit \<lparr>raw_category = ''oil'', servings_per_unit = -2\<rparr>"
  by (simp add: load_food_reference_def missing_column_def lower_def strip_def is_space_def
      lower_char_def)

section \<open>Properties of the inventory loaders and of the names in a plan\<close>

subsection \<open>Every name in a plan is the name of an item\<close>

lemma scan_items_names:
  "map item_name (fst (scan_items src cat items nl)) = map item_name items"
  by (induction items arbitrary: nl) (auto simp: case_prod_unfold)

lemma scan_items_used_names:
  "u \<in> set (fst (snd (scan_items src cat items nl))) \<Longrightarrow>
   used_item_name u \<in> set (map item_name items)"
  by (induction items arbitrary: nl) (auto simp: case_prod_unfold split: if_splits)

lemma allocate_category_names:
  assumes "allocate_category bl ml cat needed = (bl', ml', used, nl, short)"
    and "set (map item_name bl) \<subseteq> N" and "set (map item_name ml) \<subseteq> N"
  shows "set (map item_name bl') \<subseteq> N \<and> set (map item_name ml') \<subseteq> N
         \<and> set (map used_item_name used) \<subseteq> N"
proof -
  note p = allocate_category_parts [OF assms(1)]
  have b: "map item_name bl' = map item_name bl" using p by (simp add: scan_items_names)
  have m: "map item_name ml' = map item_name ml" using p by (simp add: scan_items_names)
  have u: "set (map used_item_name used) \<subseteq> N"
  proof
    fix x assume "x \<in> set (map used_item_name used)"
    then obtain u where u: "u \<in> set used" "x = used_item_name u" by auto
    from u(1) p have "u \<in> set (fst (snd (scan_items FromBox cat bl needed)))
        \<or> u \<in> set (fst (snd (scan_items FromMain cat ml (snd (snd (scan_items FromBox cat bl needed))))))"
      by (auto split: if_splits)
    then have "used_item_name u \<in> set (map item_name bl) \<or> used_item_name u \<in> set (map item_name ml)"
      using scan_items_used_names by blast
    with assms(2,3) u(2) show "x \<in> N" by blast
  qed
  from b m u assms(2,3) show ?thesis by simp
qed

lemma allocate_meal_loop_names:
  "allocate_meal_loop bl ml plan used s = (bl', ml', used', s') \<Longrightarrow>
   set (map item_name bl) \<subseteq> N \<Longrightarrow> set (map item_name ml) \<subseteq> N \<Longrightarrow>
   set (map used_item_name used) \<subseteq> N \<Longrightarrow>
   set (map item_name bl') \<subseteq> N \<and> set (map item_name ml') \<subseteq> N
     \<and> set (map used_item_name used') \<subseteq> N"
proof (induction plan arbitrary: bl ml used s)
  case Nil
  then show ?case by simp
next
  case (Cons p rest)
  obtain cat needed where p: "p = (cat, needed)" by (cases p)
  show ?case
  proof (cases "needed \<le> 0")
    case True
    then have "allocate_meal_loop bl ml rest used s = (bl', ml', used', s')"
      using Cons.prems(1) by (simp add: p)
    from Cons.IH [OF this Cons.prems(2-4)] show ?thesis .
  next
    case False
    obtain b1 m1 cu lo sh where ac: "allocate_category bl ml cat needed = (b1, m1, cu, lo, sh)"
      by (cases "allocate_category bl ml cat needed")
    have step: "allocate_meal_loop b1 m1 rest (used @ cu) (if sh then True else s) = (bl', ml', used', s')"
      using Cons.prems(1) False by (simp add: p ac)
    note n = allocate_category_names [OF ac Cons.prems(2,3)]
    have u: "set (map used_item_name (used @ cu)) \<subseteq> N"
      using n Cons.prems(4) by simp
    from n have b: "set (map item_name b1) \<subseteq> N" and m: "set (map item_name m1) \<subseteq> N"
      by simp_all
    from Cons.IH [OF step b m u] show ?thesis .
  qed
qed

lemma allocate_meal_names:
  assumes "allocate_meal bl ml plan = (bl', ml', used, s)"
    and "set (map item_name bl) \<subseteq> N" and "set (map item_name ml) \<subseteq> N"
  shows "set (map item_name bl') \<subseteq> N \<and> set (map item_name ml') \<subseteq> N
         \<and> set (map used_item_name used) \<subseteq> N"
proof -
  have l: "allocate_meal_loop bl ml plan [] False = (bl', ml', used, s)"
    using assms(1) by (simp add: allocate_meal_def)
  have e: "set (map used_item_name []) \<subseteq> N" by simp
  from allocate_meal_loop_names [OF l assms(2,3) e] show ?thesis .
qed

lemma meals_item_names_snoc:
  "meals_item_names (acc @ [meal]) = meals_item_names acc \<union> set (map used_item_name (used_items meal))"
  by (simp add: meals_item_names_def)

lemma run_meals_names:
  "run_meals bl ml keys acc = (bl', ml', day_meals, fl) \<Longrightarrow>
   set (map item_name bl) \<subseteq> N \<Longrightarrow> set (map item_name ml) \<subseteq> N \<Longrightarrow>
   meals_item_names acc \<subseteq> N \<Longrightarrow>
   set (map item_name bl') \<subseteq> N \<and> set (map item_name ml') \<subseteq> N
     \<and> meals_item_names day_meals \<subseteq> N"
proof (induction keys arbitrary: bl ml acc)
  case Nil
  then show ?case by simp
next
  case (Cons k rest)
  obtain b1 m1 u1 s1 where am: "allocate_meal bl ml (MEALS k) = (b1, m1, u1, s1)"
    by (cases "allocate_meal bl ml (MEALS k)")
  note n = allocate_meal_names [OF am Cons.prems(2,3)]
  let ?meal = "\<lparr>meal_time = str_replace ''Plan'' [] (meal_key_name k),
                   meal_plan_requirements = MEALS k, used_items = u1\<rparr>"
  have accn: "meals_item_names (acc @ [?meal]) \<subseteq> N"
    using n Cons.prems(4) by (simp add: meals_item_names_snoc)
  from n have b: "set (map item_name b1) \<subseteq> N" and m: "set (map item_name m1) \<subseteq> N"
    by simp_all
  show ?case
  proof (cases s1)
    case True
    then have "bl' = b1" "ml' = m1" "day_meals = acc @ [?meal]"
      using Cons.prems(1) am by (simp_all add: Let_def del: MEALS.simps)
    with b m accn show ?thesis by simp
  next
    case False
    then have step: "run_meals b1 m1 rest (acc @ [?meal]) = (bl', ml', day_meals, fl)"
      using Cons.prems(1) am by (simp add: Let_def del: MEALS.simps)
    from Cons.IH [OF step b m accn] show ?thesis .
  qed
qed

lemma usage_add_keys: "fst ` set (usage_add m key v) = insert key (fst ` set m)"
  by (induction m key v rule: usage_add.induct) auto

lemma summarize_used_keys:
  "summarize_used us b m = (b', m') \<Longrightarrow>
   fst ` set (map fst b) \<subseteq> N \<Longrightarrow> fst ` set (map fst m) \<subseteq> N \<Longrightarrow>
   set (map used_item_name us) \<subseteq> N \<Longrightarrow>
   fst ` set (map fst b') \<subseteq> N \<and> fst ` set (map fst m') \<subseteq> N"
proof (induction us arbitrary: b m)
  case Nil
  then show ?case by simp
next
  case (Cons u rest)
  have un: "used_item_name u \<in> N" and rn: "set (map used_item_name rest) \<subseteq> N"
    using Cons.prems(4) by simp_all
  show ?case
  proof (cases "used_from u = FromBox")
    case True
    let ?b = "usage_add b (used_item_name u, used_category u) (servings_used u)"
    have step: "summarize_used rest ?b m = (b', m')"
      using Cons.prems(1) True by (simp add: Let_def)
    have bn: "fst ` set (map fst ?b) \<subseteq> N"
      using Cons.prems(2) un by (simp add: usage_add_keys)
    from Cons.IH [OF step bn Cons.prems(3) rn] show ?thesis .
  next
    case False
    let ?m = "usage_add m (used_item_name u, used_category u) (servings_used u)"
    have step: "summarize_used rest b ?m = (b', m')"
      using Cons.prems(1) False by (simp add: Let_def)
    have mn: "fst ` set (map fst ?m) \<subseteq> N"
      using Cons.prems(3) un by (simp add: usage_add_keys)
    from Cons.IH [OF step Cons.prems(2) mn rn] show ?thesis .
  qed
qed

lemma meals_item_names_Cons:
  "meals_item_names (meal # rest) = set (map used_item_name (used_items meal)) \<union> meals_item_names rest"
  by (simp add: meals_item_names_def)

lemma summarize_meals_keys:
  "summarize_meals ms b m = (b', m') \<Longrightarrow>
   fst ` set (map fst b) \<subseteq> N \<Longrightarrow> fst ` set (map fst m) \<subseteq> N \<Longrightarrow>
   meals_item_names ms \<subseteq> N \<Longrightarrow>
   fst ` set (map fst b') \<subseteq> N \<and> fst ` set (map fst m') \<subseteq> N"
proof (induction ms arbitrary: b m)
  case Nil
  then show ?case by simp
next
  case (Cons meal rest)
  obtain b1 m1 where su: "summarize_used (used_items meal) b m = (b1, m1)"
    by (cases "summarize_used (used_items meal) b m")
  then have step: "summarize_meals rest b1 m1 = (b', m')" using Cons.prems(1) by simp
  have un: "set (map used_item_name (used_items meal)) \<subseteq> N" and rn: "meals_item_names rest \<subseteq> N"
    using Cons.prems(4) by (simp_all add: meals_item_names_Cons)
  note k = summarize_used_keys [OF su Cons.prems(2,3) un]
  from k have b: "fst ` set (map fst b1) \<subseteq> N" and m: "fst ` set (map fst m1) \<subseteq> N"
    by simp_all
  from Cons.IH [OF step b m rn] show ?case .
qed

lemma map_to_list_names: "set (map summary_item_name (map_to_list m)) = fst ` set (map fst m)"
  by (induction m) (auto simp: map_to_list_def)

lemma summarize_day_usage_names:
  assumes "summarize_day_usage day_meals = (bu, mu)" and "meals_item_names day_meals \<subseteq> N"
  shows "set (map summary_item_name bu) \<subseteq> N \<and> set (map summary_item_name mu) \<subseteq> N"
proof -
  obtain b m where sm: "summarize_meals day_meals [] [] = (b, m)"
    by (cases "summarize_meals day_meals [] []")
  with assms(1) have e: "bu = map_to_list b" "mu = map_to_list m"
    by (simp_all add: summarize_day_usage_def)
  have z: "fst ` set (map fst ([] :: usage_map)) \<subseteq> N" by simp
  from summarize_meals_keys [OF sm z z assms(2)] show ?thesis
    unfolding e map_to_list_names .
qed

lemma plan_day_names:
  assumes "plan_day bl ml d = (bl', ml', info, sh)"
    and "set (map item_name bl) \<subseteq> N" and "set (map item_name ml) \<subseteq> N"
  shows "set (map item_name bl') \<subseteq> N \<and> set (map item_name ml') \<subseteq> N
         \<and> day_item_names info \<subseteq> N"
proof -
  obtain b1 m1 dm fl where rm: "run_meals bl ml MEAL_ORDER [] = (b1, m1, dm, fl)"
    by (cases "run_meals bl ml MEAL_ORDER []")
  have z: "meals_item_names [] \<subseteq> N" by (simp add: meals_item_names_def)
  note n = run_meals_names [OF rm assms(2,3) z]
  show ?thesis
  proof (cases fl)
    case True
    then have "bl' = bl" "ml' = ml"
      "info = \<lparr>day_number = d, meals = [], day_box_usage = None, day_main_usage = None\<rparr>"
      using assms(1) rm by (simp_all add: plan_day_def)
    then show ?thesis using assms(2,3)
      by (simp add: day_item_names_def meals_item_names_def summary_item_names_def)
  next
    case False
    obtain bu mu where sd: "summarize_day_usage dm = (bu, mu)"
      by (cases "summarize_day_usage dm")
    from False have r: "bl' = b1" "ml' = m1"
      "info = \<lparr>day_number = d, meals = dm, day_box_usage = Some bu, day_main_usage = Some mu\<rparr>"
      using assms(1) rm sd by (simp_all add: plan_day_def)
    from n have dmn: "meals_item_names dm \<subseteq> N" by simp
    note s = summarize_day_usage_names [OF sd dmn]
    show ?thesis using n s unfolding r
      by (simp add: day_item_names_def summary_item_names_def)
  qed
qed

lemma plan_days_names:
  "plan_days bl ml ds dp sh = (bl', ml', dp', sh') \<Longrightarrow>
   set (map item_name bl) \<subseteq> N \<Longrightarrow> set (map item_name ml) \<subseteq> N \<Longrightarrow>
   \<Union> (set (map day_item_names dp)) \<subseteq> N \<Longrightarrow>
   \<Union> (set (map day_item_names dp')) \<subseteq> N"
proof (induction ds arbitrary: bl ml dp sh)
  case Nil
  then show ?case by simp
next
  case (Cons d rest)
  obtain b1 m1 info s where pd: "plan_day bl ml d = (b1, m1, info, s)"
    by (cases "plan_day bl ml d")
  then have step: "plan_days b1 m1 rest (dp @ [info])
            (case s of None \<Rightarrow> sh | Some x \<Rightarrow> sh @ [x]) = (bl', ml', dp', sh')"
    using Cons.prems(1) by simp
  note n = plan_day_names [OF pd Cons.prems(2,3)]
  from n have b: "set (map item_name b1) \<subseteq> N" and m: "set (map item_name m1) \<subseteq> N"
    and i: "day_item_names info \<subseteq> N" by simp_all
  have a: "\<Union> (set (map day_item_names (dp @ [info]))) \<subseteq> N"
    using Cons.prems(4) i by simp
  from Cons.IH [OF step b m a] show ?case .
qed

subsection \<open>Skipped rows\<close>

lemma build_item_list_append:
  "build_item_list ref_map (xs @ ys) = build_item_list ref_map xs @ build_item_list ref_map ys"
  by (induction xs) (auto simp: Let_def split: option.splits)

lemma build_item_list_skipped:
  "skipped ref_map row \<Longrightarrow> build_item_list ref_map [row] = []"
  by (auto simp: skipped_def Let_def split: option.splits)

lemma build_item_list_not_skipped:
  "n \<in> set (map item_name (build_item_list ref_map rs)) \<Longrightarrow> row_item_name row = n \<Longrightarrow>
   \<not> skipped ref_map row"
  by (induction rs) (auto simp: skipped_def Let_def split: option.splits)

lemma skipped_not_item_name:
  assumes "skipped ref_map row"
  shows "row_item_name row \<notin> set (map item_name (build_item_list ref_map rs))"
  using assms build_item_list_not_skipped [of "row_item_name row" ref_map rs row] by blast

text \<open>
  C7: an inventory row whose lowercased trimmed item name is not in the reference map, or
  whose raw category is not in the category map, is skipped by the loop of both loaders:
  the list of items is the one built without the row; the loaders return their lists, and
  no item of either list has the name of the row; the month plan is returned, and the name
  of the row is in no usage record and in no summary of any of its days.
\<close>

theorem skipped_row_not_in_plan:
  assumes ref: "load_food_reference (food_category_file files) = Inr ref_map"
    and box: "senior_box_file files (box_sheet_name (get_cycle_month month)) = DataFrame box_df"
    and box_cols: "''item_name'' \<in> set (columns box_df)" "''quantity'' \<in> set (columns box_df)"
    and inv: "inventory_file files = DataFrame main_df"
    and inv_cols: "''item_name'' \<in> set (columns main_df)" "''quantity_in_stock'' \<in> set (columns main_df)"
    and row: "row \<in> set (rows box_df) \<or> row \<in> set (rows main_df)"
    and skip: "skipped ref_map row"
  shows "build_item_list ref_map (before @ row # after) = build_item_list ref_map (before @ after)
         \<and> load_senior_box_data_and_list (senior_box_file files) (get_cycle_month month) ref_map
             = Inr (rows box_df, build_item_list ref_map (rows box_df))
         \<and> load_main_inventory_items (inventory_file files) ref_map
             = Inr (build_item_list ref_map (rows main_df))
         \<and> row_item_name row \<notin> set (map item_name (build_item_list ref_map (rows box_df)))
         \<and> row_item_name row \<notin> set (map item_name (build_item_list ref_map (rows main_df)))
         \<and> (\<exists>plan. generate_monthly_plan files month = Inr plan
                \<and> row_item_name row \<notin> plan_item_names plan)"
proof -
  let ?bl = "build_item_list ref_map (rows box_df)"
  let ?ml = "build_item_list ref_map (rows main_df)"
  let ?N = "set (map item_name ?bl) \<union> set (map item_name ?ml)"
  have a: "build_item_list ref_map (before @ row # after) = build_item_list ref_map (before @ after)"
    using build_item_list_append [of ref_map before "[row] @ after"]
      build_item_list_append [of ref_map "[row]" after]
      build_item_list_append [of ref_map before after]
      build_item_list_skipped [OF skip]
    by simp
  have lb: "load_senior_box_data_and_list (senior_box_file files) (get_cycle_month month) ref_map
             = Inr (rows box_df, ?bl)"
    using box box_cols by (simp add: load_senior_box_data_and_list_def Let_def)
  have lm: "load_main_inventory_items (inventory_file files) ref_map = Inr ?ml"
    using inv inv_cols by (simp add: load_main_inventory_items_def missing_column_def Let_def)
  have nb: "row_item_name row \<notin> set (map item_name ?bl)"
    and nm: "row_item_name row \<notin> set (map item_name ?ml)"
    using skip by (rule skipped_not_item_name)+
  obtain bl' ml' day_plans day_shortages where
    pd: "plan_days ?bl ?ml [1 .. 30] [] [] = (bl', ml', day_plans, day_shortages)"
    by (cases "plan_days ?bl ?ml [1 .. 30] [] []")
  let ?plan = "\<lparr>month_requested = month, cycle_month = get_cycle_month month,
                 senior_box_items_for_month = rows box_df,
                 final_daily_plan = day_plans,
                 all_shortages =
                   (if day_shortages \<noteq> []
                    then [\<lparr>report_type = ''meal_plan_shortage'', details = day_shortages\<rparr>]
                    else [])\<rparr>"
  have g: "generate_monthly_plan files month = Inr ?plan"
    unfolding generate_monthly_plan_def Let_def by (simp only: ref lb lm pd sum.case prod.case)
  have "\<Union> (set (map day_item_names day_plans)) \<subseteq> ?N"
    by (rule plan_days_names [OF pd]) simp_all
  then have "plan_item_names ?plan \<subseteq> ?N" by (simp add: plan_item_names_def)
  with nb nm have "row_item_name row \<notin> plan_item_names ?plan" by blast
  with g have "\<exists>plan. generate_monthly_plan files month = Inr plan
                \<and> row_item_name row \<notin> plan_item_names plan" by blast
  with a lb lm nb nm show ?thesis by simp
qed

theorem skipped_row_not_in_plan_witness:
  "load_food_reference (food_category_file
      \<lparr>food_category_file = DataFrame
         \<lparr>columns = [''item_name'', ''item_category'', ''servings_per_unit''],
          rows = [\<lparr>ref_item_name = ''Apple'', ref_item_category = ''Grains'',
                   ref_servings_per_unit = Numeric 2\<rparr>,
                  \<lparr>ref_item_name = ''Soap'', ref_item_category = ''Household'',
                   ref_servings_per_unit = Numeric 1\<rparr>]\<rparr>,
       senior_box_file = (\<lambda>sheet. DataFrame
         \<lparr>columns = [''item_name'', ''quantity''],
          rows = [\<lparr>row_item_name = ''Apple'', row_quantity = Numeric 5\<rparr>,
                  \<lparr>row_item_name = ''Durian'', row_quantity = Numeric 3\<rparr>]\<rparr>),
       inventory_file = DataFrame
         \<lparr>columns = [''item_name'', ''quantity_in_stock''],
          rows = [\<lparr>row_item_name = ''Soap'', row_quantity = Numeric 4\<rparr>]\<rparr>\<rparr>)
     = Inr [''apple'' \<mapsto> \<lparr>raw_category = ''grains'', servings_per_unit = 2\<rparr>,
            ''soap'' \<mapsto> \<lparr>raw_category = ''household'', servings_per_unit = 1\<rparr>]
   \<and> skipped [''apple'' \<mapsto> \<lparr>raw_category = ''grains'', servings_per_unit = 2\<rparr>,
               ''soap'' \<mapsto> \<lparr>raw_category = ''household'', servings_per_unit = 1\<rparr>]
        \<lparr>row_item_name = ''Soap'', row_quantity = Numeric 4\<rparr>
   \<and> build_item_list [''apple'' \<mapsto> \<lparr>raw_category = ''grains'', servings_per_unit = 2\<rparr>,
               ''soap'' \<mapsto> \<lparr>raw_category = ''household'', servings_per_unit = 1\<rparr>]
        ([\<lparr>row_item_name = ''Apple'', row_quantity = Numeric 5\<rparr>]
           @ \<lparr>row_item_name = ''Soap'', row_quantity = Numeric 4\<rparr> # [])
       = [\<lparr>item_name = ''Apple'', category = ''cereal'', servings_available = 10\<rparr>]
   \<and> (\<exists>plan. generate_monthly_plan
      \<lparr>food_category_file = DataFrame
         \<lparr>columns = [''item_name'', ''item_category'', ''servings_per_unit''],
          rows = [\<lparr>ref_item_name = ''Apple'', ref_item_category = ''Grains'',
                   ref_servings_per_unit = Numeric 2\<rparr>,
                  \<lparr>ref_item_name = ''Soap'', ref_item_category = ''Household'',
                   ref_servings_per_unit = Numeric 1\<rparr>]\<rparr>,
       senior_box_file = (\<lambda>sheet. DataFrame
         \<lparr>columns = [''item_name'', ''quantity''],
          rows = [\<lparr>row_item_name = ''Apple'', row_quantity = Numeric 5\<rparr>,
                  \<lparr>row_item_name = ''Durian'', row_quantity = Numeric 3\<rparr>]\<rparr>),
       inventory_file = DataFrame
         \<lparr>columns = [''item_name'', ''quantity_in_stock''],
          rows = [\<lparr>row_item_name = ''Soap'', row_quantity = Numeric 4\<rparr>]\<rparr>\<rparr> 4 = Inr plan
      \<and> ''Soap'' \<notin> plan_item_names plan)"
proof -
  let ?ref = "[''apple'' \<mapsto> \<lparr>raw_category = ''grains'', servings_per_unit = 2\<rparr>,
               ''soap'' \<mapsto> \<lparr>raw_category = ''household'', servings_per_unit = 1\<rparr>]"
  let ?box = "\<lparr>columns = [''item_name'', ''quantity''],
          rows = [\<lparr>row_item_name = ''Apple'', row_quantity = Numeric 5\<rparr>,
                  \<lparr>row_item_name = ''Durian'', row_quantity = Numeric 3\<rparr>]\<rparr>"
  let ?inv = "\<lparr>columns = [''item_name'', ''quantity_in_stock''],
          rows = [\<lparr>row_item_name = ''Soap'', row_quantity = Numeric 4\<rparr>]\<rparr>"
  let ?files = "\<lparr>food_category_file = DataFrame
         \<lparr>columns = [''item_name'', ''item_category'', ''servings_per_unit''],
          rows = [\<lparr>ref_item_name = ''Apple'', ref_item_category = ''Grains'',
                   ref_servings_per_unit = Numeric 2\<rparr>,
                  \<lparr>ref_item_name = ''Soap'', ref_item_category = ''Household'',
                   ref_servings_per_unit = Numeric 1\<rparr>]\<rparr>,
       senior_box_file = (\<lambda>sheet. DataFrame ?box),
       inventory_file = DataFrame ?inv\<rparr>"
  let ?row = "\<lparr>row_item_name = ''Soap'', row_quantity = Numeric 4\<rparr>"
  have h1: "load_food_reference (food_category_file ?files) = Inr ?ref"
    by (simp add: load_food_reference_def missing_column_def lower_def strip_def is_space_def
        lower_char_def fun_upd_twist)
  have h2: "senior_box_file ?files (box_sheet_name (get_cycle_month 4)) = DataFrame ?box"
    by simp
  have h3: "''item_name'' \<in> set (columns ?box)" and h4: "''quantity'' \<in> set (columns ?box)"
    by simp_all
  have h5: "inventory_file ?files = DataFrame ?inv" by simp
  have h6: "''item_name'' \<in> set (columns ?inv)" and h7: "''quantity_in_stock'' \<in> set (columns ?inv)"
    by simp_all
  have h8: "?row \<in> set (rows ?box) \<or> ?row \<in> set (rows ?inv)" by simp
  have h9: "skipped ?ref ?row"
    by (simp add: skipped_def lower_def strip_def is_space_def lower_char_def CATEGORY_MAP_def)
  note c = skipped_row_not_in_plan [OF h1 h2 h3 h4 h5 h6 h7 h8 h9,
      of "[\<lparr>row_item_name = ''Apple'', row_quantity = Numeric 5\<rparr>]" "[]"]
  have c1: "build_item_list ?ref
        ([\<lparr>row_item_name = ''Apple'', row_quantity = Numeric 5\<rparr>] @ ?row # [])
       = [\<lparr>item_name = ''Apple'', category = ''cereal'', servings_available = 10\<rparr>]"
    using c
    by (simp add: lower_def strip_def is_space_def lower_char_def CATEGORY_MAP_def
        double_mul_def round_double_whole)
  have c2: "\<exists>plan. generate_monthly_plan ?files 4 = Inr plan \<and> ''Soap'' \<notin> plan_item_names plan"
    using c by simp
  from h1 h9 c1 c2 show ?thesis by (intro conjI)
qed

end
